theory Spec2Isabelle
  imports Complex_Main
begin

section \<open>JavaScript strings\<close>

text \<open>
  Response bodies, URLs and messages are \<open>string\<close>s: lists of code units. The model
  covers the code units 0 to 255, so the white space that \<open>String.prototype.trim\<close>
  strips is, within that range, TAB, LF, VT, FF, CR, SP and NBSP.
\<close>

definition isWhiteSpace :: "char \<Rightarrow> bool" where
  "isWhiteSpace c =
     (c = CHR 0x09 \<or> c = CHR 0x0A \<or> c = CHR 0x0B \<or> c = CHR 0x0C \<or> c = CHR 0x0D
      \<or> c = CHR 0x20 \<or> c = CHR 0xA0)"

definition trim :: "string \<Rightarrow> string" where
  "trim s = rev (dropWhile isWhiteSpace (rev (dropWhile isWhiteSpace s)))"

definition startsWith :: "string \<Rightarrow> string \<Rightarrow> bool" where
  "startsWith s p = (take (length p) s = p)"

definition endsWith :: "string \<Rightarrow> string \<Rightarrow> bool" where
  "endsWith s p = (length p \<le> length s \<and> drop (length s - length p) s = p)"

text \<open>\<open>s.includes(p)\<close>: \<open>p\<close> occurs in \<open>s\<close> at some position.\<close>

fun str_includes :: "string \<Rightarrow> string \<Rightarrow> bool" where
  "str_includes [] p = (p = [])"
| "str_includes (c # s) p = (startsWith (c # s) p \<or> str_includes s p)"

text \<open>Decimal rendering of a number inside a template literal.\<close>

definition digit_char :: "nat \<Rightarrow> char" where
  "digit_char d = char_of (48 + d)"

fun show_nat :: "nat \<Rightarrow> string" where
  "show_nat n = (if n < 10 then [digit_char n] else show_nat (n div 10) @ [digit_char (n mod 10)])"

declare show_nat.simps [simp del]

definition show_int :: "int \<Rightarrow> string" where
  "show_int i = (if i < 0 then CHR ''-'' # show_nat (nat (- i)) else show_nat (nat i))"

section \<open>JSON\<close>

text \<open>
  \<open>JSON.parse\<close> and \<open>JSON.stringify\<close> belong to the platform. A parsed value is a
  tree; a number keeps the text of its literal, and an object keeps its properties in
  insertion order, a repeated key overwriting the earlier value in place. Two things
  the platform does to a value are left out, and no property below depends on them: it
  holds a number as a double, so that it writes \<open>1.0\<close> back as \<open>1\<close>, and it lists the
  keys of an object that look like array indices before the other keys.
\<close>

datatype json =
    JNull
  | JBool bool
  | JNumber string
  | JString string
  | JArray "json list"
  | JObject "(string \<times> json) list"

fun obj_set :: "(string \<times> json) list \<Rightarrow> string \<Rightarrow> json \<Rightarrow> (string \<times> json) list" where
  "obj_set [] k v = [(k, v)]"
| "obj_set ((k', v') # ps) k v = (if k' = k then (k, v) # ps else (k', v') # obj_set ps k v)"

datatype token =
    LBrace | RBrace | LBracket | RBracket | Colon | Comma
  | TString string | TNumber string | TTrue | TFalse | TNull

definition is_json_ws :: "char \<Rightarrow> bool" where
  "is_json_ws c = (c = CHR 0x20 \<or> c = CHR 0x09 \<or> c = CHR 0x0A \<or> c = CHR 0x0D)"

definition is_digit :: "char \<Rightarrow> bool" where
  "is_digit c = (48 \<le> (of_char c :: nat) \<and> (of_char c :: nat) \<le> 57)"

definition hex_val :: "char \<Rightarrow> nat option" where
  "hex_val c =
     (let n = (of_char c :: nat) in
      if 48 \<le> n \<and> n \<le> 57 then Some (n - 48)
      else if 97 \<le> n \<and> n \<le> 102 then Some (n - 87)
      else if 65 \<le> n \<and> n \<le> 70 then Some (n - 55)
      else None)"

text \<open>
  The four hexadecimal digits of a \<open>\u\<close> escape. A code unit above 255 lies outside the
  model's range of characters and is cut to its low byte; no property below reads one.
\<close>

definition hex4 :: "string \<Rightarrow> char option" where
  "hex4 s =
     (case map hex_val (take 4 s) of
        [Some a, Some b, Some c, Some d] \<Rightarrow> Some (char_of (16 * c + d))
      | _ \<Rightarrow> None)"

definition unescape :: "char \<Rightarrow> char option" where
  "unescape e =
     (if e = CHR 0x22 then Some (CHR 0x22)
      else if e = CHR 0x5C then Some (CHR 0x5C)
      else if e = CHR ''/'' then Some (CHR ''/'')
      else if e = CHR ''b'' then Some (CHR 0x08)
      else if e = CHR ''f'' then Some (CHR 0x0C)
      else if e = CHR ''n'' then Some (CHR 0x0A)
      else if e = CHR ''r'' then Some (CHR 0x0D)
      else if e = CHR ''t'' then Some (CHR 0x09)
      else None)"

text \<open>
  The characters of a string literal after its opening quote: the decoded string and
  the text left after the closing quote.
\<close>

fun scan_string :: "string \<Rightarrow> (string \<times> string) option" where
  "scan_string [] = None"
| "scan_string (c # cs) =
     (if c = CHR 0x22 then Some ([], cs)
      else if c = CHR 0x5C then
        (case cs of
           [] \<Rightarrow> None
         | e # r \<Rightarrow>
             if e = CHR ''u'' then
               (case hex4 r of
                  None \<Rightarrow> None
                | Some d \<Rightarrow> map_option (\<lambda>(s, t). (d # s, t)) (scan_string (drop 4 r)))
             else
               (case unescape e of
                  None \<Rightarrow> None
                | Some d \<Rightarrow> map_option (\<lambda>(s, t). (d # s, t)) (scan_string r)))
      else if (of_char c :: nat) < 32 then None
      else map_option (\<lambda>(s, t). (c # s, t)) (scan_string cs))"

text \<open>
  A number literal at the head of the text: an optional minus sign, an integer part
  without a leading zero, an optional fraction and an optional exponent.
\<close>

definition scan_digits :: "string \<Rightarrow> (string \<times> string) option" where
  "scan_digits s =
     (if takeWhile is_digit s = [] then None
      else Some (takeWhile is_digit s, dropWhile is_digit s))"

definition scan_int :: "string \<Rightarrow> (string \<times> string) option" where
  "scan_int s =
     (case s of
        [] \<Rightarrow> None
      | c # cs \<Rightarrow>
          if c = CHR ''0'' then Some ([c], cs)
          else if is_digit c then Some (c # takeWhile is_digit cs, dropWhile is_digit cs)
          else None)"

definition scan_frac :: "string \<Rightarrow> (string \<times> string) option" where
  "scan_frac s =
     (case s of
        [] \<Rightarrow> Some ([], s)
      | c # cs \<Rightarrow>
          if c = CHR ''.'' then map_option (\<lambda>(d, t). (c # d, t)) (scan_digits cs)
          else Some ([], s))"

definition scan_sign :: "string \<Rightarrow> string \<times> string" where
  "scan_sign s =
     (case s of
        [] \<Rightarrow> ([], s)
      | c # cs \<Rightarrow> if c = CHR ''+'' \<or> c = CHR ''-'' then ([c], cs) else ([], s))"

definition scan_exp :: "string \<Rightarrow> (string \<times> string) option" where
  "scan_exp s =
     (case s of
        [] \<Rightarrow> Some ([], s)
      | c # cs \<Rightarrow>
          if c = CHR ''e'' \<or> c = CHR ''E'' then
            (case scan_sign cs of
               (sg, t) \<Rightarrow> map_option (\<lambda>(d, u). (c # sg @ d, u)) (scan_digits t))
          else Some ([], s))"

definition scan_number :: "string \<Rightarrow> (string \<times> string) option" where
  "scan_number s =
     (case (case s of
              [] \<Rightarrow> ([], s)
            | c # cs \<Rightarrow> if c = CHR ''-'' then ([c], cs) else ([], s)) of
        (m, s1) \<Rightarrow>
          (case scan_int s1 of
             None \<Rightarrow> None
           | Some (i, s2) \<Rightarrow>
               (case scan_frac s2 of
                  None \<Rightarrow> None
                | Some (f, s3) \<Rightarrow>
                    (case scan_exp s3 of
                       None \<Rightarrow> None
                     | Some (e, s4) \<Rightarrow> Some (m @ i @ f @ e, s4)))))"


lemma scan_string_shorter: "scan_string cs = Some (s, r) \<Longrightarrow> length r < length cs"
proof (induction cs arbitrary: s rule: scan_string.induct)
  case 1
  then show ?case by simp
next
  case (2 c cs)
  then show ?case
    by (fastforce split: if_splits list.splits option.splits)
qed

lemma scan_number_shorter: "scan_number s = Some (n, r) \<Longrightarrow> length r < length s"
proof -
  have drop_le: "length (dropWhile is_digit t) \<le> length t" for t
    by (simp add: length_dropWhile_le)
  have dg: "scan_digits t = Some (d, u) \<Longrightarrow> length u \<le> length t" for t d u
    using drop_le [of t] by (auto simp: scan_digits_def split: if_splits)
  have it: "scan_int t = Some (d, u) \<Longrightarrow> length u < length t" for t d u
    using drop_le [of "tl t"] by (auto simp: scan_int_def split: list.splits if_splits)
  have fr: "scan_frac t = Some (d, u) \<Longrightarrow> length u \<le> length t" for t d u
    by (fastforce simp: scan_frac_def split: list.splits if_splits dest: dg)
  have sg: "scan_sign t = (d, u) \<Longrightarrow> length u \<le> length t" for t d u
    by (auto simp: scan_sign_def split: list.splits if_splits)
  have ex: "scan_exp t = Some (d, u) \<Longrightarrow> length u \<le> length t" for t d u
    by (fastforce simp: scan_exp_def split: list.splits if_splits prod.splits dest: dg sg)
  assume "scan_number s = Some (n, r)"
  then obtain m s1 i s2 f s3 e where
    a: "(case s of [] \<Rightarrow> ([], s) | c # cs \<Rightarrow> if c = CHR ''-'' then ([c], cs) else ([], s)) = (m, s1)"
    and b: "scan_int s1 = Some (i, s2)" and c: "scan_frac s2 = Some (f, s3)"
    and d: "scan_exp s3 = Some (e, r)"
    by (auto simp: scan_number_def split: prod.splits option.splits)
  from a have "length s1 \<le> length s" by (auto split: list.splits if_splits)
  with it [OF b] fr [OF c] ex [OF d] show ?thesis by linarith
qed

text \<open>The tokens of a JSON text; \<open>None\<close> when some character starts no token.\<close>

function tokenize :: "string \<Rightarrow> token list option" where
  "tokenize [] = Some []"
| "tokenize (c # cs) =
     (if is_json_ws c then tokenize cs
      else if c = CHR ''{'' then map_option (Cons LBrace) (tokenize cs)
      else if c = CHR ''}'' then map_option (Cons RBrace) (tokenize cs)
      else if c = CHR ''['' then map_option (Cons LBracket) (tokenize cs)
      else if c = CHR '']'' then map_option (Cons RBracket) (tokenize cs)
      else if c = CHR '':'' then map_option (Cons Colon) (tokenize cs)
      else if c = CHR '','' then map_option (Cons Comma) (tokenize cs)
      else if c = CHR 0x22 then
        (case scan_string cs of
           None \<Rightarrow> None
         | Some (s, r) \<Rightarrow> map_option (Cons (TString s)) (tokenize r))
      else if startsWith (c # cs) ''true'' then map_option (Cons TTrue) (tokenize (drop 3 cs))
      else if startsWith (c # cs) ''false'' then map_option (Cons TFalse) (tokenize (drop 4 cs))
      else if startsWith (c # cs) ''null'' then map_option (Cons TNull) (tokenize (drop 3 cs))
      else
        (case scan_number (c # cs) of
           None \<Rightarrow> None
         | Some (n, r) \<Rightarrow> map_option (Cons (TNumber n)) (tokenize r)))"
  by pat_completeness auto
termination
proof (relation "measure length")
  show "wf (measure length)" by simp
qed (auto dest: scan_string_shorter scan_number_shorter)

text \<open>
  The grammar over tokens, as a machine with a stack of the arrays and objects that
  are open. Every step consumes one token.
\<close>

datatype frame = ArrF "json list" | ObjF "(string \<times> json) list" | KeyF string

datatype pmode = WantValue | WantValueOrClose | WantKeyOrClose | WantKey | WantColon | Have json

fun open_value :: "token \<Rightarrow> frame list \<Rightarrow> (pmode \<times> frame list) option" where
  "open_value LBrace st = Some (WantKeyOrClose, ObjF [] # st)"
| "open_value LBracket st = Some (WantValueOrClose, ArrF [] # st)"
| "open_value (TString s) st = Some (Have (JString s), st)"
| "open_value (TNumber n) st = Some (Have (JNumber n), st)"
| "open_value TTrue st = Some (Have (JBool True), st)"
| "open_value TFalse st = Some (Have (JBool False), st)"
| "open_value TNull st = Some (Have JNull, st)"
| "open_value _ st = None"

definition close_value :: "json \<Rightarrow> frame list \<Rightarrow> token \<Rightarrow> (pmode \<times> frame list) option" where
  "close_value v st t =
     (case st of
        ArrF acc # st' \<Rightarrow>
          if t = Comma then Some (WantValue, ArrF (acc @ [v]) # st')
          else if t = RBracket then Some (Have (JArray (acc @ [v])), st')
          else None
      | KeyF k # ObjF acc # st' \<Rightarrow>
          if t = Comma then Some (WantKey, ObjF (obj_set acc k v) # st')
          else if t = RBrace then Some (Have (JObject (obj_set acc k v)), st')
          else None
      | _ \<Rightarrow> None)"

definition want_key :: "frame list \<Rightarrow> token \<Rightarrow> (pmode \<times> frame list) option" where
  "want_key st t = (case t of TString k \<Rightarrow> Some (WantColon, KeyF k # st) | _ \<Rightarrow> None)"

definition step :: "pmode \<Rightarrow> frame list \<Rightarrow> token \<Rightarrow> (pmode \<times> frame list) option" where
  "step m st t =
     (case m of
        Have v \<Rightarrow> close_value v st t
      | WantValue \<Rightarrow> open_value t st
      | WantValueOrClose \<Rightarrow>
          (case st of
             ArrF acc # st' \<Rightarrow>
               if t = RBracket then Some (Have (JArray acc), st') else open_value t st
           | _ \<Rightarrow> None)
      | WantKeyOrClose \<Rightarrow>
          (case st of
             ObjF acc # st' \<Rightarrow>
               if t = RBrace then Some (Have (JObject acc), st') else want_key st t
           | _ \<Rightarrow> None)
      | WantKey \<Rightarrow> want_key st t
      | WantColon \<Rightarrow> if t = Colon then Some (WantValue, st) else None)"

fun parse_tokens :: "pmode \<Rightarrow> frame list \<Rightarrow> token list \<Rightarrow> json option" where
  "parse_tokens m st [] = (case (m, st) of (Have v, []) \<Rightarrow> Some v | _ \<Rightarrow> None)"
| "parse_tokens m st (t # ts) =
     (case step m st t of
        None \<Rightarrow> None
      | Some (m', st') \<Rightarrow> parse_tokens m' st' ts)"

definition JSON_parse :: "string \<Rightarrow> json option" where
  "JSON_parse text =
     (case tokenize text of
        None \<Rightarrow> None
      | Some ts \<Rightarrow> parse_tokens WantValue [] ts)"

text \<open>\<open>JSON.stringify\<close> of a tree: no white space, strings quoted and escaped.\<close>

definition hex_digit :: "nat \<Rightarrow> char" where
  "hex_digit d = (if d < 10 then char_of (48 + d) else char_of (87 + d))"

definition escape_char :: "char \<Rightarrow> string" where
  "escape_char c =
     (if c = CHR 0x22 then [CHR 0x5C, CHR 0x22]
      else if c = CHR 0x5C then [CHR 0x5C, CHR 0x5C]
      else if c = CHR 0x08 then [CHR 0x5C, CHR ''b'']
      else if c = CHR 0x0C then [CHR 0x5C, CHR ''f'']
      else if c = CHR 0x0A then [CHR 0x5C, CHR ''n'']
      else if c = CHR 0x0D then [CHR 0x5C, CHR ''r'']
      else if c = CHR 0x09 then [CHR 0x5C, CHR ''t'']
      else if (of_char c :: nat) < 32 then
        [CHR 0x5C, CHR ''u'', CHR ''0'', CHR ''0'',
         hex_digit (of_char c div 16), hex_digit (of_char c mod 16)]
      else [c])"

definition quote :: "string \<Rightarrow> string" where
  "quote s = CHR 0x22 # concat (map escape_char s) @ [CHR 0x22]"

fun join :: "string \<Rightarrow> string list \<Rightarrow> string" where
  "join sep [] = []"
| "join sep [x] = x"
| "join sep (x # y # ys) = x @ sep @ join sep (y # ys)"

fun JSON_stringify :: "json \<Rightarrow> string" where
  "JSON_stringify JNull = ''null''"
| "JSON_stringify (JBool b) = (if b then ''true'' else ''false'')"
| "JSON_stringify (JNumber n) = n"
| "JSON_stringify (JString s) = quote s"
| "JSON_stringify (JArray xs) = ''['' @ join '','' (map JSON_stringify xs) @ '']''"
| "JSON_stringify (JObject ps) =
     ''{'' @ join '','' (map (\<lambda>p. quote (fst p) @ '':'' @ JSON_stringify (snd p)) ps) @ ''}''"

section \<open>HTML-response detector\<close>

definition isHTMLResponse :: "string \<Rightarrow> bool" where
  "isHTMLResponse responseText =
     (startsWith (trim responseText) ''<!DOCTYPE'' \<or>
      startsWith (trim responseText) ''<html'' \<or>
      str_includes responseText ''<title>'' \<or>
      str_includes responseText ''<body>'')"

section \<open>Platform: notifications, responses, clock\<close>

text \<open>
  \<open>toast\<close> shows a notification. Every operation below returns the list of the
  notifications it emits, in order.
\<close>

datatype variant = VDefault | VDestructive

record toast =
  title :: string
  description :: string
  variant :: variant

text \<open>
  What \<open>fetch\<close> gives back: a promise that rejects with a thrown value (no connection,
  a timeout of the abort signal), or a response with its status line whose body is then
  read by \<open>response.text()\<close>, which can reject in turn. \<open>response.ok\<close> holds exactly for
  the status codes 200 to 299.
\<close>

datatype thrown = JSError string | NotAnError

record response =
  status_code :: nat
  statusText :: string
  body :: "thrown + string"

datatype fetched = Resolved response | Rejected thrown

definition ok :: "response \<Rightarrow> bool" where
  "ok r = (200 \<le> status_code r \<and> status_code r \<le> 299)"

definition error_message :: "thrown \<Rightarrow> string \<Rightarrow> string" where
  "error_message e fallback = (case e of JSError m \<Rightarrow> m | NotAnError \<Rightarrow> fallback)"

text \<open>
  One probe as the environment answers it: the outcome of the fetch and the readings of
  the clock at the places where the code reads it (\<open>Date.now()\<close> before the fetch, after
  the response arrived, inside the \<open>catch\<close>, and for the time stamp of the record).
\<close>

record probe_env =
  fetched :: fetched
  startTime :: int
  respTime :: int
  catchTime :: int
  stampTime :: int
  isoTime :: string

section \<open>Backend health service\<close>

datatype health = healthy | degraded | down

text \<open>
  The fields of \<open>HealthStatus\<close>; \<open>h_latency\<close>, \<open>h_timestamp\<close> and \<open>h_error\<close> are the
  source's \<open>latency\<close>, \<open>timestamp\<close> and \<open>error\<close>.
\<close>

record HealthStatus =
  isHealthy :: bool
  status :: health
  h_latency :: int
  h_timestamp :: string
  h_error :: "string option"

text \<open>
  The service: the last recorded status (\<open>None\<close> before the first probe completes), the
  subscribed listeners, and the calls made to them so far.
\<close>

record health_service =
  healthStatus :: "HealthStatus option"
  listeners :: "nat list"
  delivered :: "(nat \<times> HealthStatus) list"

definition toast_backend_online :: toast where
  "toast_backend_online =
     \<lparr>title = ''Backend Online'', description = ''Connection restored successfully'',
      variant = VDefault\<rparr>"

definition toast_backend_offline :: toast where
  "toast_backend_offline =
     \<lparr>title = ''Backend Offline'', description = ''Some features may not work properly'',
      variant = VDestructive\<rparr>"

definition updateHealthStatus :: "HealthStatus \<Rightarrow> health_service \<Rightarrow> health_service \<times> toast list" where
  "updateHealthStatus st svc =
     (let previousStatus = map_option status (healthStatus svc);
          svc' = svc\<lparr>healthStatus := Some st,
                     delivered := delivered svc @ map (\<lambda>l. (l, st)) (listeners svc)\<rparr>
      in case previousStatus of
           None \<Rightarrow> (svc', [])
         | Some prev \<Rightarrow>
             if prev \<noteq> status st then
               (if status st = healthy \<and> prev \<noteq> healthy then (svc', [toast_backend_online])
                else if status st = down \<and> prev \<noteq> down then (svc', [toast_backend_offline])
                else (svc', []))
             else (svc', []))"

definition health_html :: "string \<Rightarrow> bool" where
  "health_html responseText =
     (str_includes responseText ''<!DOCTYPE'' \<or> str_includes responseText ''<html>'')"

definition probe_failed :: "probe_env \<Rightarrow> thrown \<Rightarrow> HealthStatus" where
  "probe_failed env e =
     \<lparr>isHealthy = False, status = down, h_latency = catchTime env - startTime env,
      h_timestamp = isoTime env, h_error = Some (error_message e ''Network error'')\<rparr>"

definition probe_status :: "probe_env \<Rightarrow> HealthStatus" where
  "probe_status env =
     (case fetched env of
        Rejected e \<Rightarrow> probe_failed env e
      | Resolved r \<Rightarrow>
          (let latency = respTime env - startTime env in
           case body r of
             Inl e \<Rightarrow> probe_failed env e
           | Inr responseText \<Rightarrow>
               if health_html responseText then
                 \<lparr>isHealthy = False, status = down, h_latency = latency,
                  h_timestamp = isoTime env,
                  h_error = Some ''Backend returning HTML instead of JSON - service misconfigured''\<rparr>
               else
                 (case JSON_parse responseText of
                    None \<Rightarrow>
                      \<lparr>isHealthy = False, status = degraded, h_latency = latency,
                       h_timestamp = isoTime env,
                       h_error = Some ''Invalid JSON response from backend''\<rparr>
                  | Some data \<Rightarrow>
                      \<lparr>isHealthy = ok r, status = (if ok r then healthy else degraded),
                       h_latency = latency, h_timestamp = isoTime env,
                       h_error =
                         (if ok r then None
                          else Some (''HTTP '' @ show_nat (status_code r) @ '': '' @ statusText r))\<rparr>)))"

text \<open>
  \<open>checkHealth\<close>: every path builds a status, records it with \<open>updateHealthStatus\<close> and
  returns it.
\<close>

definition checkHealth :: "probe_env \<Rightarrow> health_service \<Rightarrow> HealthStatus \<times> health_service \<times> toast list" where
  "checkHealth env svc = (probe_status env, updateHealthStatus (probe_status env) svc)"

text \<open>The probes that complete one after the other, each recorded on the state the last one left.\<close>

fun monitor :: "probe_env list \<Rightarrow> health_service \<Rightarrow> health_service \<times> toast list" where
  "monitor [] svc = (svc, [])"
| "monitor (env # envs) svc =
     (case checkHealth env svc of
        (st, svc', ts) \<Rightarrow> (case monitor envs svc' of (svc'', ts') \<Rightarrow> (svc'', ts @ ts')))"

definition new_health_service :: health_service where
  "new_health_service = \<lparr>healthStatus = None, listeners = [], delivered = []\<rparr>"

section \<open>Backend connection manager\<close>

record ConnectionAttempt =
  url :: string
  timestamp :: int
  success :: bool
  latency :: "int option"
  error :: "string option"

text \<open>
  The manager's fields, and the state of the page it shares with the rest of the
  application: the URLs of \<open>API_CONFIG\<close> and the requests sent so far.
\<close>

record connection_manager =
  attempts :: "ConnectionAttempt list"
  currentBackendUrl :: string
  fallbackUrls :: "string list"

record api_config =
  BASE_URL :: string
  BACKEND_URL :: string
  API_URL :: string
  SOCKET_URL :: string
  WS_URL :: string

record page =
  config :: api_config
  requests :: "string list"

definition toast_all_offline :: toast where
  "toast_all_offline =
     \<lparr>title = ''All Backends Offline'',
      description = ''Unable to connect to any backend server. Please check your connection.'',
      variant = VDestructive\<rparr>"

definition health_url :: "string \<Rightarrow> string" where
  "health_url u = (if endsWith u ''/'' then u @ ''api/health'' else u @ ''/api/health'')"

definition attempt_failed :: "probe_env \<Rightarrow> string \<Rightarrow> thrown \<Rightarrow> ConnectionAttempt" where
  "attempt_failed env u e =
     \<lparr>url = u, timestamp = stampTime env, success = False,
      latency = Some (catchTime env - startTime env),
      error = Some (error_message e ''Connection failed'')\<rparr>"

text \<open>The attempt \<open>testBackendConnection\<close> records for a URL, from what the probe answered.\<close>

definition attempt_of :: "probe_env \<Rightarrow> string \<Rightarrow> ConnectionAttempt" where
  "attempt_of env u =
     (case fetched env of
        Rejected e \<Rightarrow> attempt_failed env u e
      | Resolved r \<Rightarrow>
          (let l = respTime env - startTime env in
           case body r of
             Inl e \<Rightarrow> attempt_failed env u e
           | Inr responseText \<Rightarrow>
               if str_includes responseText ''<!DOCTYPE'' \<or> str_includes responseText ''<html>'' then
                 \<lparr>url = u, timestamp = stampTime env, success = False, latency = Some l,
                  error = Some ''Backend returning HTML instead of JSON''\<rparr>
               else
                 (case JSON_parse responseText of
                    Some data \<Rightarrow>
                      \<lparr>url = u, timestamp = stampTime env, success = ok r, latency = Some l,
                       error = (if ok r then None
                                else Some (''HTTP '' @ show_nat (status_code r)))\<rparr>
                  | None \<Rightarrow>
                      \<lparr>url = u, timestamp = stampTime env, success = False, latency = Some l,
                       error = Some ''Invalid JSON response''\<rparr>)))"

text \<open>
  The network, as the manager meets it: what the request number \<open>k\<close> of the page, sent
  to a URL, is answered. \<open>testBackendConnection\<close> sends one request to the health
  address of the URL and records it in the page's list of requests.
\<close>

type_synonym network = "nat \<Rightarrow> string \<Rightarrow> probe_env"

definition testBackendConnection :: "network \<Rightarrow> string \<Rightarrow> page \<Rightarrow> ConnectionAttempt \<times> page" where
  "testBackendConnection net u pg =
     (attempt_of (net (length (requests pg)) (health_url u)) u,
      pg\<lparr>requests := requests pg @ [health_url u]\<rparr>)"

text \<open>
  The loop of \<open>findHealthyBackend\<close> over the URLs left to try: \<open>Some\<close> of the URL it
  returned from inside the loop, or \<open>None\<close> when the loop ran to its end.
\<close>

fun probe_candidates ::
  "network \<Rightarrow> string list \<Rightarrow> connection_manager \<Rightarrow> page \<Rightarrow>
   string option \<times> connection_manager \<times> page" where
  "probe_candidates net [] m pg = (None, m, pg)"
| "probe_candidates net (u # us) m pg =
     (case testBackendConnection net u pg of
        (attempt, pg1) \<Rightarrow>
          (let m1 = m\<lparr>attempts := attempts m @ [attempt]\<rparr> in
           if success attempt then
             (Some u, m1\<lparr>currentBackendUrl := u\<rparr>,
              pg1\<lparr>config := (config pg1)\<lparr>BASE_URL := u, BACKEND_URL := u, API_URL := u\<rparr>\<rparr>)
           else probe_candidates net us m1 pg1))"

definition findHealthyBackend ::
  "network \<Rightarrow> connection_manager \<Rightarrow> page \<Rightarrow> string \<times> connection_manager \<times> page \<times> toast list" where
  "findHealthyBackend net m pg =
     (case probe_candidates net (currentBackendUrl m # fallbackUrls m) m pg of
        (Some u, m', pg') \<Rightarrow> (u, m', pg', [])
      | (None, m', pg') \<Rightarrow> (currentBackendUrl m', m', pg', [toast_all_offline]))"

definition getCurrentBackendUrl :: "connection_manager \<Rightarrow> string" where
  "getCurrentBackendUrl m = currentBackendUrl m"

text \<open>
  The numbers \<open>getConnectionStats\<close> computes are doubles. A quotient of two integers is
  modelled by its exact value, \<open>0/0\<close> by \<open>NaN\<close> and a nonzero number over zero by an
  infinity; rounding to the nearest double is not modelled. \<open>js_or_zero x\<close> is \<open>x || 0\<close>
  and \<open>Math_round\<close> rounds to the nearest integer, a half upwards.
\<close>

datatype jsnum = NaN | Num rat | PosInf | NegInf

definition js_div :: "rat \<Rightarrow> rat \<Rightarrow> jsnum" where
  "js_div a b =
     (if b = 0 then (if a = 0 then NaN else if 0 < a then PosInf else NegInf)
      else Num (a / b))"

definition js_or_zero :: "jsnum \<Rightarrow> jsnum" where
  "js_or_zero x = (if x = NaN \<or> x = Num 0 then Num 0 else x)"

definition Math_round :: "jsnum \<Rightarrow> jsnum" where
  "Math_round x = (case x of Num q \<Rightarrow> Num (of_int \<lfloor>q + 1 / 2\<rfloor>) | _ \<Rightarrow> x)"

definition latency_or_zero :: "ConnectionAttempt \<Rightarrow> int" where
  "latency_or_zero a = (case latency a of None \<Rightarrow> 0 | Some l \<Rightarrow> l)"

record connection_stats =
  totalAttempts :: nat
  successful :: nat
  failed :: nat
  successRate :: jsnum
  averageLatency :: jsnum
  currentBackend :: string

definition getConnectionStats :: "connection_manager \<Rightarrow> connection_stats" where
  "getConnectionStats m =
     (let successful = length (filter success (attempts m));
          failed = length (filter (\<lambda>a. \<not> success a) (attempts m));
          avgLatency =
            js_or_zero
              (js_div
                 (of_int (foldl (\<lambda>sum a. sum + latency_or_zero a) 0
                    (filter (\<lambda>a. success a \<and> latency a \<noteq> None \<and> latency a \<noteq> Some 0)
                       (attempts m))))
                 (of_nat successful))
      in \<lparr>totalAttempts = length (attempts m),
          successful = successful,
          failed = failed,
          successRate = js_div (of_nat successful) (of_nat (length (attempts m))),
          averageLatency = Math_round avgLatency,
          currentBackend = currentBackendUrl m\<rparr>)"

text \<open>
  The attempt log as the program holds it: an array of references to attempt objects.
  The store maps the address of an array to the addresses of its elements and the
  address of an object to its fields; addresses below \<open>next_addr\<close> are in use.
  \<open>getConnectionHistory\<close> builds a new array with the elements of \<open>this.attempts\<close>.
\<close>

record store =
  arrays :: "nat \<Rightarrow> nat list option"
  objects :: "nat \<Rightarrow> ConnectionAttempt option"
  next_addr :: nat

definition getConnectionHistory :: "nat \<Rightarrow> store \<Rightarrow> (nat \<times> store) option" where
  "getConnectionHistory attempts_ref h =
     (case arrays h attempts_ref of
        None \<Rightarrow> None
      | Some elems \<Rightarrow>
          Some (next_addr h,
                h\<lparr>arrays := (arrays h)(next_addr h \<mapsto> elems), next_addr := Suc (next_addr h)\<rparr>))"

text \<open>
  What a caller can do to an array it holds: give it any new list of elements (\<open>push\<close>,
  \<open>pop\<close>, \<open>splice\<close>, \<open>sort\<close>, an assignment to an index or to \<open>length\<close> are all of this
  form). What it can do to an element it reached through the array: assign its fields.
\<close>

definition array_write :: "nat \<Rightarrow> nat list \<Rightarrow> store \<Rightarrow> store" where
  "array_write a elems h = h\<lparr>arrays := (arrays h)(a \<mapsto> elems)\<rparr>"

definition object_write :: "nat \<Rightarrow> ConnectionAttempt \<Rightarrow> store \<Rightarrow> store" where
  "object_write a v h = h\<lparr>objects := (objects h)(a \<mapsto> v)\<rparr>"

text \<open>The attempts an array holds, in order; \<open>None\<close> for a dangling address.\<close>

fun deref_all :: "store \<Rightarrow> nat list \<Rightarrow> ConnectionAttempt list option" where
  "deref_all h [] = Some []"
| "deref_all h (a # as) =
     (case objects h a of
        None \<Rightarrow> None
      | Some v \<Rightarrow> map_option (Cons v) (deref_all h as))"

definition array_contents :: "store \<Rightarrow> nat \<Rightarrow> ConnectionAttempt list option" where
  "array_contents h a = (case arrays h a of None \<Rightarrow> None | Some elems \<Rightarrow> deref_all h elems)"


text \<open>
  The attempts that probing a list of URLs in order records, when none of them stops
  the loop and the first request is the page's request number \<open>k\<close>.
\<close>

fun attempts_from :: "network \<Rightarrow> nat \<Rightarrow> string list \<Rightarrow> ConnectionAttempt list" where
  "attempts_from net k [] = []"
| "attempts_from net k (u # us) = attempt_of (net k (health_url u)) u # attempts_from net (Suc k) us"

text \<open>Sample probes: a response with a status code and a body, and a probe that timed out.\<close>

definition probe_reply :: "nat \<Rightarrow> string \<Rightarrow> probe_env" where
  "probe_reply code tx =
     \<lparr>fetched = Resolved \<lparr>status_code = code, statusText = ''-'', body = Inr tx\<rparr>,
      startTime = 1000, respTime = 1040, catchTime = 1050, stampTime = 1060,
      isoTime = ''2025-01-01T00:00:01.040Z''\<rparr>"

definition probe_timeout :: probe_env where
  "probe_timeout =
     \<lparr>fetched = Rejected (JSError ''The operation timed out.''),
      startTime = 1000, respTime = 0, catchTime = 11000, stampTime = 11001,
      isoTime = ''2025-01-01T00:00:11.000Z''\<rparr>"

definition probe_cut :: probe_env where
  "probe_cut =
     \<lparr>fetched = Resolved \<lparr>status_code = 200, statusText = ''OK'', body = Inl NotAnError\<rparr>,
      startTime = 1000, respTime = 1040, catchTime = 1090, stampTime = 1091,
      isoTime = ''2025-01-01T00:00:01.090Z''\<rparr>"

section \<open>JavaScript values\<close>

text \<open>
  The values the request code handles are JSON trees; \<open>undefined\<close> is \<open>None\<close>.
  \<open>get_prop d k\<close> is \<open>d?.k\<close>: a property of an object, and \<open>undefined\<close> on every
  other value for the keys read here. A number is falsy when its literal has no digit
  other than zero before the exponent (a literal the platform rounds down to zero is
  taken as written). \<open>js_toString\<close> is the conversion \<open>Error\<close> applies to its message;
  it prints a number as its literal and every object as \<open>[object Object]\<close> (an object
  that carries a \<open>toString\<close> property of its own is left out). These two functions are
  used only after a body was parsed, on the paths that answer valid JSON.
\<close>

fun get_prop :: "json \<Rightarrow> string \<Rightarrow> json option" where
  "get_prop (JObject ps) k = map_of ps k"
| "get_prop _ k = None"

definition mantissa :: "string \<Rightarrow> string" where
  "mantissa n = takeWhile (\<lambda>c. c \<noteq> CHR ''e'' \<and> c \<noteq> CHR ''E'') n"

fun truthy :: "json option \<Rightarrow> bool" where
  "truthy None = False"
| "truthy (Some JNull) = False"
| "truthy (Some (JBool b)) = b"
| "truthy (Some (JNumber n)) = (\<exists>c \<in> set (mantissa n). is_digit c \<and> c \<noteq> CHR ''0'')"
| "truthy (Some (JString s)) = (s \<noteq> [])"
| "truthy (Some (JArray xs)) = True"
| "truthy (Some (JObject ps)) = True"

definition js_or :: "json option \<Rightarrow> json option \<Rightarrow> json option" where
  "js_or a b = (if truthy a then a else b)"

fun js_toString :: "json \<Rightarrow> string" where
  "js_toString JNull = ''null''"
| "js_toString (JBool b) = (if b then ''true'' else ''false'')"
| "js_toString (JNumber n) = n"
| "js_toString (JString s) = s"
| "js_toString (JArray xs) =
     join '','' (map (\<lambda>x. if x = JNull then [] else js_toString x) xs)"
| "js_toString (JObject ps) = ''[object Object]''"

section \<open>Emergency API handler\<close>

text \<open>
  \<open>APIFallbackResponse\<close>; \<open>f_success\<close>, \<open>f_data\<close> and \<open>f_error\<close> are the source's
  \<open>success\<close>, \<open>data\<close> and \<open>error\<close>. An optional field that is absent is \<open>None\<close>.
\<close>

record APIFallbackResponse =
  f_success :: bool
  f_data :: "json option"
  f_error :: "json option"
  isEmergencyMode :: "bool option"

definition toast_connection_issue :: toast where
  "toast_connection_issue =
     \<lparr>title = ''Backend Connection Issue'',
      description = ''The server is currently unavailable. Using offline mode.'',
      variant = VDestructive\<rparr>"

definition toast_network_error :: toast where
  "toast_network_error =
     \<lparr>title = ''Network Error'',
      description = ''Cannot connect to server. Check your internet connection.'',
      variant = VDestructive\<rparr>"

definition toast_saved_offline :: toast where
  "toast_saved_offline =
     \<lparr>title = ''Post Saved Offline'',
      description = ''Your post will sync when the server is back online.'',
      variant = VDefault\<rparr>"

text \<open>\<open>if (responseText) data = JSON.parse(responseText)\<close>: an empty body is not parsed.\<close>

definition parse_body :: "string \<Rightarrow> json option" where
  "parse_body responseText = (if responseText = [] then Some JNull else JSON_parse responseText)"

definition emergency_network_failure :: "thrown \<Rightarrow> APIFallbackResponse \<times> toast list" where
  "emergency_network_failure e =
     (\<lparr>f_success = False, f_data = None,
       f_error = Some (JString (error_message e ''Network error'')),
       isEmergencyMode = Some True\<rparr>,
      [toast_network_error])"

definition emergencyApiRequest :: "fetched \<Rightarrow> APIFallbackResponse \<times> toast list" where
  "emergencyApiRequest f =
     (case f of
        Rejected e \<Rightarrow> emergency_network_failure e
      | Resolved r \<Rightarrow>
          (case body r of
             Inl e \<Rightarrow> emergency_network_failure e
           | Inr responseText \<Rightarrow>
               if isHTMLResponse responseText then
                 (\<lparr>f_success = False, f_data = None,
                   f_error = Some (JString
                     ''Backend server is unavailable - returned HTML instead of JSON''),
                   isEmergencyMode = Some True\<rparr>,
                  [toast_connection_issue])
               else
                 (case parse_body responseText of
                    None \<Rightarrow>
                      (\<lparr>f_success = False, f_data = None,
                        f_error = Some (JString ''Invalid response format from server''),
                        isEmergencyMode = Some True\<rparr>,
                       [])
                  | Some data \<Rightarrow>
                      if \<not> ok r then
                        (\<lparr>f_success = False, f_data = None,
                          f_error =
                            js_or (js_or (get_prop data ''message'') (get_prop data ''error''))
                              (Some (JString (''HTTP '' @ show_nat (status_code r)))),
                          isEmergencyMode = Some False\<rparr>,
                         [])
                      else
                        (\<lparr>f_success = True,
                          f_data = js_or (get_prop data ''data'') (Some data),
                          f_error = None,
                          isEmergencyMode = Some False\<rparr>,
                         []))))"

section \<open>Emergency store\<close>

text \<open>
  \<open>localStorage\<close>: the stored items, and the longest value a write accepts; a longer
  one makes \<open>setItem\<close> throw, as a full or disabled storage does.
\<close>

record localStorage =
  items :: "string \<Rightarrow> string option"
  quota :: nat

definition getItem :: "localStorage \<Rightarrow> string \<Rightarrow> string option" where
  "getItem st k = items st k"

definition setItem :: "localStorage \<Rightarrow> string \<Rightarrow> string \<Rightarrow> localStorage option" where
  "setItem st k v =
     (if length v \<le> quota st then Some (st\<lparr>items := (items st)(k \<mapsto> v)\<rparr>) else None)"

definition removeItem :: "localStorage \<Rightarrow> string \<Rightarrow> localStorage" where
  "removeItem st k = st\<lparr>items := (items st)(k := None)\<rparr>"

text \<open>\<open>localStorage.getItem('emergency_posts') || '[]'\<close>\<close>

definition stored_posts_text :: "localStorage \<Rightarrow> string" where
  "stored_posts_text st =
     (case getItem st ''emergency_posts'' of
        None \<Rightarrow> ''[]''
      | Some t \<Rightarrow> if t = [] then ''[]'' else t)"

text \<open>
  The properties an object spread \<open>...postData\<close> copies: those of an object, the indexed
  elements of an array, the indexed characters of a string, and none of any other value.
\<close>

fun spread_props :: "json \<Rightarrow> (string \<times> json) list" where
  "spread_props (JObject ps) = ps"
| "spread_props (JArray xs) = map (\<lambda>i. (show_nat i, xs ! i)) [0..<length xs]"
| "spread_props (JString s) = map (\<lambda>i. (show_nat i, JString [s ! i])) [0..<length s]"
| "spread_props _ = []"

text \<open>
  The object literal of the new post: \<open>id\<close> first, then the properties of \<open>postData\<close>,
  then \<open>createdAt\<close>, \<open>isEmergencyMode\<close> and \<open>status\<close>; a later property of the same
  name takes the place of the earlier value. (Where \<open>postData\<close> has keys that look like
  array indices the platform lists them before \<open>id\<close>; the values are the same.)
\<close>

definition newPost :: "json \<Rightarrow> int \<Rightarrow> string \<Rightarrow> json" where
  "newPost postData now stamp =
     JObject
       (foldl (\<lambda>ps (k, v). obj_set ps k v)
          [(''id'', JString (''emergency_'' @ show_int now))]
          (spread_props postData @
           [(''createdAt'', JString stamp),
            (''isEmergencyMode'', JBool True),
            (''status'', JString ''pending_sync'')]))"

definition save_failed :: APIFallbackResponse where
  "save_failed =
     \<lparr>f_success = False, f_data = None,
      f_error = Some (JString ''Failed to save post offline''),
      isEmergencyMode = Some True\<rparr>"

text \<open>
  \<open>emergencyCreatePost\<close>, given the reading of \<open>Date.now()\<close> and the text of
  \<open>new Date().toISOString()\<close>. Whatever throws inside the \<open>try\<close> (a stored text that does
  not parse, a stored value without \<open>unshift\<close>, a write that is refused) ends in the
  \<open>catch\<close>, with the storage as it was.
\<close>

definition emergencyCreatePost ::
  "json \<Rightarrow> int \<Rightarrow> string \<Rightarrow> localStorage \<Rightarrow> APIFallbackResponse \<times> localStorage \<times> toast list" where
  "emergencyCreatePost postData now stamp st =
     (case JSON_parse (stored_posts_text st) of
        Some (JArray existingPosts) \<Rightarrow>
          (case setItem st ''emergency_posts''
                  (JSON_stringify (JArray (newPost postData now stamp # existingPosts))) of
             None \<Rightarrow> (save_failed, st, [])
           | Some st' \<Rightarrow>
               (\<lparr>f_success = True, f_data = Some (newPost postData now stamp), f_error = None,
                 isEmergencyMode = Some True\<rparr>,
                st', [toast_saved_offline]))
      | _ \<Rightarrow> (save_failed, st, []))"

definition getEmergencyPosts :: "localStorage \<Rightarrow> json" where
  "getEmergencyPosts st =
     (case JSON_parse (stored_posts_text st) of
        None \<Rightarrow> JArray []
      | Some posts \<Rightarrow> posts)"

definition clearEmergencyPosts :: "localStorage \<Rightarrow> localStorage" where
  "clearEmergencyPosts st = removeItem st ''emergency_posts''"

section \<open>API service\<close>

text \<open>
  \<open>APIResponse\<close>; \<open>a_success\<close>, \<open>a_data\<close>, \<open>a_error\<close>, \<open>a_status\<close> and \<open>a_message\<close>
  are the source's \<open>success\<close>, \<open>data\<close>, \<open>error\<close>, \<open>status\<close> and \<open>message\<close>.
\<close>

record APIResponse =
  a_success :: bool
  a_data :: "json option"
  a_error :: "json option"
  a_status :: nat
  a_message :: "json option"

text \<open>
  The \<open>catch\<close> of \<open>apiRequest\<close> on an \<open>APIError\<close> with the given status, response text
  and message.
\<close>

definition api_error_result :: "nat \<Rightarrow> string \<Rightarrow> string \<Rightarrow> APIResponse" where
  "api_error_result st responseText msg =
     (if responseText \<noteq> [] \<and> isHTMLResponse responseText then
        \<lparr>a_success = False, a_data = None,
         a_error = Some (JString ''Backend server is unavailable. Please try again later.''),
         a_status = st, a_message = None\<rparr>
      else
        \<lparr>a_success = False, a_data = None, a_error = Some (JString msg),
         a_status = st, a_message = None\<rparr>)"

definition api_network_failure :: "thrown \<Rightarrow> APIResponse" where
  "api_network_failure e =
     \<lparr>a_success = False, a_data = None,
      a_error = Some (JString (error_message e ''Unknown error occurred'')),
      a_status = 0, a_message = None\<rparr>"

text \<open>
  \<open>apiRequest\<close>, given the outcome of its own fetch and the outcome of the second
  fetch, which \<open>emergencyApiRequest\<close> makes when the first body is HTML.
\<close>

definition apiRequest :: "fetched \<Rightarrow> fetched \<Rightarrow> APIResponse \<times> toast list" where
  "apiRequest first second =
     (case first of
        Rejected e \<Rightarrow> (api_network_failure e, [])
      | Resolved r \<Rightarrow>
          (case body r of
             Inl e \<Rightarrow> (api_network_failure e, [])
           | Inr responseText \<Rightarrow>
               if isHTMLResponse responseText then
                 (case emergencyApiRequest second of
                    (emergencyResult, ts) \<Rightarrow>
                      (\<lparr>a_success = f_success emergencyResult, a_data = f_data emergencyResult,
                        a_error = f_error emergencyResult, a_status = status_code r,
                        a_message = None\<rparr>,
                       ts))
               else
                 (case parse_body responseText of
                    None \<Rightarrow>
                      (api_error_result (status_code r) responseText
                         ''Invalid JSON response from server'', [])
                  | Some data \<Rightarrow>
                      if \<not> ok r then
                        (api_error_result (status_code r) responseText
                           (case js_or (js_or (get_prop data ''message'') (get_prop data ''error''))
                                   (Some (JString ''API request failed'')) of
                              None \<Rightarrow> ''API Error: '' @ show_nat (status_code r) @ '' '' @ statusText r
                            | Some m \<Rightarrow> js_toString m),
                         [])
                      else
                        (\<lparr>a_success = True, a_data = js_or (get_prop data ''data'') (Some data),
                          a_error = None, a_status = status_code r,
                          a_message = get_prop data ''message''\<rparr>,
                         []))))"

text \<open>
  \<open>result.error?.includes('HTML instead of JSON')\<close>: \<open>undefined\<close> on an absent or null
  error, the substring test on a string, the membership test on an array, and a
  \<open>TypeError\<close> on any other value, which has no \<open>includes\<close>.
\<close>

definition error_includes :: "json option \<Rightarrow> string \<Rightarrow> bool option" where
  "error_includes err p =
     (case err of
        None \<Rightarrow> Some False
      | Some JNull \<Rightarrow> Some False
      | Some (JString s) \<Rightarrow> Some (str_includes s p)
      | Some (JArray xs) \<Rightarrow> Some (JString p \<in> set xs)
      | Some _ \<Rightarrow> None)"

datatype create_result =
    FromApi APIResponse
  | FromEmergencyStore APIFallbackResponse
  | TypeError

text \<open>
  \<open>postsService.create\<close>: the post request, and the emergency store when the request
  failed with an error that mentions \<open>HTML instead of JSON\<close>.
\<close>

definition postsService_create ::
  "json \<Rightarrow> fetched \<Rightarrow> fetched \<Rightarrow> int \<Rightarrow> string \<Rightarrow> localStorage \<Rightarrow>
   create_result \<times> localStorage \<times> toast list" where
  "postsService_create postData first second now stamp st =
     (case apiRequest first second of
        (result, ts) \<Rightarrow>
          if a_success result then (FromApi result, st, ts)
          else
            (case error_includes (a_error result) ''HTML instead of JSON'' of
               None \<Rightarrow> (TypeError, st, ts)
             | Some False \<Rightarrow> (FromApi result, st, ts)
             | Some True \<Rightarrow>
                 (case emergencyCreatePost postData now stamp st of
                    (saved, st', ts') \<Rightarrow> (FromEmergencyStore saved, st', ts @ ts'))))"

text \<open>Sample inputs: a response with a status code and a body, and a storage with nothing in it.\<close>

definition reply :: "nat \<Rightarrow> string \<Rightarrow> fetched" where
  "reply code tx = Resolved \<lparr>status_code = code, statusText = ''-'', body = Inr tx\<rparr>"

definition empty_storage :: localStorage where
  "empty_storage = \<lparr>items = Map.empty, quota = 5000000\<rparr>"

text \<open>Sample posts, and the record the store builds for one of them.\<close>

definition post_a :: json where
  "post_a = JObject [(''content'', JString ''first post''), (''feeling'', JString ''calm'')]"

definition post_b :: json where
  "post_b = JObject [(''content'', JString ''second post'')]"

definition sample_stamp :: string where
  "sample_stamp = ''2023-11-14T22:13:20.000Z''"

definition saved :: "string \<Rightarrow> (string \<times> json) list \<Rightarrow> json" where
  "saved ident props =
     JObject ((''id'', JString ident) # props @
       [(''createdAt'', JString ''2023-11-14T22:13:20.000Z''),
        (''isEmergencyMode'', JBool True),
        (''status'', JString ''pending_sync'')])"

definition saved_a :: "string \<Rightarrow> json" where
  "saved_a ident = saved ident [(''content'', JString ''first post''), (''feeling'', JString ''calm'')]"

definition saved_b :: "string \<Rightarrow> json" where
  "saved_b ident = saved ident [(''content'', JString ''second post'')]"

text \<open>
  A sample manager with three candidates, and two networks: one where only the second
  candidate answers, one where every request times out.
\<close>

definition sample_manager :: connection_manager where
  "sample_manager =
     \<lparr>attempts = [], currentBackendUrl = ''https://a.example'',
      fallbackUrls = [''https://b.example'', ''https://c.example/'']\<rparr>"

definition sample_page :: page where
  "sample_page =
     \<lparr>config = \<lparr>BASE_URL = ''https://a.example'', BACKEND_URL = ''https://a.example'',
                API_URL = ''https://a.example'', SOCKET_URL = ''https://a.example'',
                WS_URL = ''wss://a.example''\<rparr>,
      requests = []\<rparr>"

definition only_b_answers :: network where
  \<open>only_b_answers k u =
     (if u = ''https://b.example/api/health'' then probe_reply 200 ''{"status":"ok"}''
      else probe_timeout)\<close>

definition nobody_answers :: network where
  "nobody_answers k u = probe_timeout"

text \<open>
  Sample attempts, a manager with a given attempt log, and a store in which the log is
  the array at address 0 with two attempt objects.
\<close>

definition attempt_ok :: "int \<Rightarrow> ConnectionAttempt" where
  "attempt_ok l =
     \<lparr>url = ''https://a.example'', timestamp = 1700000000000, success = True,
      latency = Some l, error = None\<rparr>"

definition attempt_bad :: ConnectionAttempt where
  "attempt_bad =
     \<lparr>url = ''https://a.example'', timestamp = 1700000000000, success = False,
      latency = Some 5000, error = Some ''The operation timed out.''\<rparr>"

definition manager_with :: "ConnectionAttempt list \<Rightarrow> connection_manager" where
  "manager_with entries =
     \<lparr>attempts = entries, currentBackendUrl = ''https://a.example'', fallbackUrls = []\<rparr>"

definition sample_store :: store where
  "sample_store =
     \<lparr>arrays = [0 \<mapsto> [1, 2]],
      objects = [1 \<mapsto> attempt_ok 10, 2 \<mapsto> attempt_bad],
      next_addr = 3\<rparr>"

section \<open>Properties of the parser\<close>

text \<open>The text of a JSON object begins, after JSON white space, with an opening brace.\<close>

lemma tokenize_ws: "is_json_ws c \<Longrightarrow> tokenize (c # cs) = tokenize cs"
  by simp

lemma tokenize_first:
  "\<not> is_json_ws c \<Longrightarrow> c \<noteq> CHR ''{'' \<Longrightarrow> tokenize (c # cs) \<noteq> Some (LBrace # ts)"
  by (simp split: option.splits)

lemma tokenize_LBrace:
  "tokenize s = Some (LBrace # ts) \<Longrightarrow> \<exists>r. dropWhile is_json_ws s = CHR ''{'' # r"
proof (induction s)
  case Nil
  then show ?case by simp
next
  case (Cons c cs)
  show ?case
  proof (cases "is_json_ws c")
    case True
    with Cons.prems have "tokenize cs = Some (LBrace # ts)"
      by (simp only: tokenize_ws)
    from Cons.IH [OF this] True show ?thesis by simp
  next
    case False
    with Cons.prems tokenize_first [of c cs ts] have "c = CHR ''{''" by blast
    with False show ?thesis by simp
  qed
qed

lemma step_bottom_array:
  "step m st t = Some (m', st') \<Longrightarrow> st \<noteq> [] \<Longrightarrow> last st = ArrF acc \<Longrightarrow>
   (st' \<noteq> [] \<and> (\<exists>acc'. last st' = ArrF acc')) \<or> (st' = [] \<and> (\<exists>xs. m' = Have (JArray xs)))"
  by (cases t; cases m)
     (auto simp: step_def close_value_def want_key_def 
           split: list.splits frame.splits if_splits)

lemma parse_tokens_Have_Nil:
  "parse_tokens (Have v) [] ts = Some w \<Longrightarrow> w = v"
  by (cases ts) (auto simp: step_def close_value_def)

lemma parse_tokens_bottom_array:
  "parse_tokens m st ts = Some v \<Longrightarrow> st \<noteq> [] \<Longrightarrow> last st = ArrF acc \<Longrightarrow> \<exists>xs. v = JArray xs"
proof (induction ts arbitrary: m st acc)
  case Nil
  then show ?case by (auto split: pmode.splits list.splits)
next
  case (Cons t ts)
  from Cons.prems(1) obtain m' st' where
    s: "step m st t = Some (m', st')" and p: "parse_tokens m' st' ts = Some v"
    by (auto split: option.splits)
  from step_bottom_array [OF s Cons.prems(2,3)] show ?case
  proof
    assume "st' \<noteq> [] \<and> (\<exists>acc'. last st' = ArrF acc')"
    with Cons.IH [OF p] show ?thesis by blast
  next
    assume "st' = [] \<and> (\<exists>xs. m' = Have (JArray xs))"
    with p parse_tokens_Have_Nil show ?thesis by blast
  qed
qed

lemma parse_tokens_object_starts:
  "parse_tokens WantValue [] ts = Some (JObject kvs) \<Longrightarrow> \<exists>r. ts = LBrace # r"
proof (cases ts)
  case Nil
  assume "parse_tokens WantValue [] ts = Some (JObject kvs)"
  with Nil show ?thesis by simp
next
  case (Cons t r)
  assume a: "parse_tokens WantValue [] ts = Some (JObject kvs)"
  show ?thesis
  proof (cases t)
    case LBracket
    with a Cons have "parse_tokens WantValueOrClose [ArrF []] r = Some (JObject kvs)"
      by (simp add: step_def)
    from parse_tokens_bottom_array [OF this] show ?thesis by simp
  qed (use a Cons in \<open>auto simp: step_def dest: parse_tokens_Have_Nil\<close>)
qed

lemma JSON_parse_object_starts:
  "JSON_parse s = Some (JObject kvs) \<Longrightarrow> \<exists>r. dropWhile is_json_ws s = CHR ''{'' # r"
  by (auto simp: JSON_parse_def split: option.splits
           dest!: parse_tokens_object_starts dest: tokenize_LBrace)


lemma is_json_ws_isWhiteSpace: "is_json_ws c \<Longrightarrow> isWhiteSpace c"
  by (auto simp: is_json_ws_def isWhiteSpace_def)

lemma dropWhile_weaker:
  "(\<And>x. P x \<Longrightarrow> Q x) \<Longrightarrow> dropWhile Q (dropWhile P xs) = dropWhile Q xs"
  by (induction xs) auto

lemma trim_keeps_head:
  assumes "dropWhile isWhiteSpace s = c # r" and "\<not> isWhiteSpace c"
  shows "\<exists>u. trim s = c # u"
proof -
  have "dropWhile isWhiteSpace (rev r @ [c]) = dropWhile isWhiteSpace (rev r) @ [c]"
    using assms(2) by (simp add: dropWhile_append)
  then have "trim s = c # rev (dropWhile isWhiteSpace (rev r))"
    using assms(1) by (simp add: trim_def)
  then show ?thesis by blast
qed

lemma trim_JSON_object:
  assumes "JSON_parse s = Some (JObject kvs)"
  shows "\<exists>u. trim s = CHR ''{'' # u"
proof -
  from JSON_parse_object_starts [OF assms] obtain r where
    r: "dropWhile is_json_ws s = CHR ''{'' # r" ..
  have "dropWhile isWhiteSpace s = dropWhile isWhiteSpace (dropWhile is_json_ws s)"
    by (rule dropWhile_weaker [symmetric]) (rule is_json_ws_isWhiteSpace)
  with r have "dropWhile isWhiteSpace s = CHR ''{'' # r"
    by (simp add: isWhiteSpace_def)
  then show ?thesis
    by (rule trim_keeps_head) (simp add: isWhiteSpace_def)
qed

section \<open>C1: the HTML detector on doctype texts and on JSON object texts\<close>

text \<open>
  C1, as stated: every text whose trimmed form starts with a doctype declaration is
  detected, and no text of a valid minified JSON object is. The second half fails: the
  text \<open>{"a":"<title>"}\<close> is what \<open>JSON.stringify\<close> prints for an object with one
  string property, \<open>JSON.parse\<close> reads it back as that object, and the detector answers
  true, since the text contains \<open><title>\<close>.
\<close>

theorem isHTMLResponse_json_title_counterexample:
  \<open>JSON_stringify (JObject [(''a'', JString ''<title>'')]) = ''{"a":"<title>"}'' \<and>
   JSON_parse ''{"a":"<title>"}'' = Some (JObject [(''a'', JString ''<title>'')]) \<and>
   isHTMLResponse ''{"a":"<title>"}'' = True\<close>
proof -
  have \<open>JSON_stringify (JObject [(''a'', JString ''<title>'')]) = ''{"a":"<title>"}''\<close>
    by code_simp
  moreover have \<open>JSON_parse ''{"a":"<title>"}'' = Some (JObject [(''a'', JString ''<title>'')])\<close>
    by code_simp
  moreover have \<open>isHTMLResponse ''{"a":"<title>"}'' = True\<close>
    by code_simp
  ultimately show ?thesis by blast
qed

text \<open>
  C1, amended: a text whose trimmed form starts with \<open><!DOCTYPE\<close> (in upper case, as
  the detector compares it) is detected; a text that \<open>JSON.parse\<close> reads as an object
  is detected exactly when it contains \<open><title>\<close> or \<open><body>\<close>, so a JSON object text
  with neither of the two is not detected.
\<close>

theorem isHTMLResponse_doctype_and_json_object:
  "(startsWith (trim s) ''<!DOCTYPE'' \<longrightarrow> isHTMLResponse s = True) \<and>
   (JSON_parse t = Some (JObject kvs) \<longrightarrow>
      isHTMLResponse t = (str_includes t ''<title>'' \<or> str_includes t ''<body>''))"
proof (intro conjI impI)
  assume "startsWith (trim s) ''<!DOCTYPE''"
  then show "isHTMLResponse s = True" by (simp add: isHTMLResponse_def)
next
  assume "JSON_parse t = Some (JObject kvs)"
  from trim_JSON_object [OF this] obtain u where "trim t = CHR ''{'' # u" ..
  then show "isHTMLResponse t = (str_includes t ''<title>'' \<or> str_includes t ''<body>'')"
    by (simp add: isHTMLResponse_def startsWith_def)
qed

theorem isHTMLResponse_doctype_and_json_object_witness:
  \<open>startsWith (trim ''  <!DOCTYPE html><p>502</p> '') ''<!DOCTYPE'' \<and>
   isHTMLResponse ''  <!DOCTYPE html><p>502</p> '' = True \<and>
   JSON_parse ''{"status":"ok"}'' = Some (JObject [(''status'', JString ''ok'')]) \<and>
   isHTMLResponse ''{"status":"ok"}'' = False\<close>
proof -
  have a: \<open>startsWith (trim ''  <!DOCTYPE html><p>502</p> '') ''<!DOCTYPE''\<close>
    by code_simp
  have b: \<open>JSON_parse ''{"status":"ok"}'' = Some (JObject [(''status'', JString ''ok'')])\<close>
    by code_simp
  have c: \<open>\<not> (str_includes ''{"status":"ok"}'' ''<title>'' \<or> str_includes ''{"status":"ok"}'' ''<body>'')\<close>
    by code_simp
  from isHTMLResponse_doctype_and_json_object
         [of \<open>''  <!DOCTYPE html><p>502</p> ''\<close> \<open>''{"status":"ok"}''\<close>
             \<open>[(''status'', JString ''ok'')]\<close>]
       a b c
  show ?thesis by blast
qed

section \<open>C2: the status a health probe records\<close>

text \<open>
  C2, as stated: a body detected as HTML gives the status down, and valid JSON with a
  status code in 200 to 299 gives the status healthy. The health service does not call
  the HTML detector \<open>isHTMLResponse\<close>; it tests the body itself, for \<open><!DOCTYPE\<close> or
  \<open><html>\<close> anywhere in it, and it does so before it parses. The body
  \<open><html lang="en"></html>\<close>, answered with status 200, is HTML for the detector,
  passes the service's own test, fails \<open>JSON.parse\<close> and is recorded as degraded. The
  body \<open>{"page":"<html>"}\<close>, answered with status 200, is valid JSON and is recorded
  as down.
\<close>

theorem checkHealth_html_lang_counterexample:
  \<open>isHTMLResponse ''<html lang="en"></html>'' = True \<and>
   status (fst (checkHealth (probe_reply 200 ''<html lang="en"></html>'') new_health_service))
     = degraded \<and>
   JSON_parse ''{"page":"<html>"}'' = Some (JObject [(''page'', JString ''<html>'')]) \<and>
   ok \<lparr>status_code = 200, statusText = ''-'', body = Inr ''{"page":"<html>"}''\<rparr> \<and>
   status (fst (checkHealth (probe_reply 200 ''{"page":"<html>"}'') new_health_service))
     = down\<close>
  by code_simp

text \<open>
  C2, amended: every completed probe records the first of these that applies. A
  rejected fetch (a timeout included) or a body that cannot be read: down. A body that
  contains \<open><!DOCTYPE\<close> or \<open><html>\<close> anywhere (the service's own test \<open>health_html\<close>,
  made before parsing, also on a body that is valid JSON): down. A body without the two
  that \<open>JSON.parse\<close> rejects: degraded. A body without the two that is valid JSON, with
  a status code outside 200 to 299: degraded. A body without the two that is valid
  JSON, with a status code in 200 to 299: healthy. The status returned is the one
  recorded.
\<close>

theorem checkHealth_status_rule:
  "(fetched env = Rejected e \<longrightarrow> status (fst (checkHealth env svc)) = down) \<and>
   (fetched env = Resolved r \<and> body r = Inl e \<longrightarrow>
      status (fst (checkHealth env svc)) = down) \<and>
   (fetched env = Resolved r \<and> body r = Inr tx \<and> health_html tx \<longrightarrow>
      status (fst (checkHealth env svc)) = down) \<and>
   (fetched env = Resolved r \<and> body r = Inr tx \<and> \<not> health_html tx \<and>
    JSON_parse tx = None \<longrightarrow>
      status (fst (checkHealth env svc)) = degraded) \<and>
   (fetched env = Resolved r \<and> body r = Inr tx \<and> \<not> health_html tx \<and>
    JSON_parse tx = Some d \<and> \<not> ok r \<longrightarrow>
      status (fst (checkHealth env svc)) = degraded) \<and>
   (fetched env = Resolved r \<and> body r = Inr tx \<and> \<not> health_html tx \<and>
    JSON_parse tx = Some d \<and> ok r \<longrightarrow>
      status (fst (checkHealth env svc)) = healthy) \<and>
   healthStatus (fst (snd (checkHealth env svc))) = Some (fst (checkHealth env svc))"
  by (auto simp: checkHealth_def probe_status_def probe_failed_def updateHealthStatus_def Let_def
           split: option.splits)

theorem checkHealth_status_rule_witness:
  \<open>status (fst (checkHealth probe_timeout new_health_service)) = down \<and>
   status (fst (checkHealth probe_cut new_health_service)) = down \<and>
   status (fst (checkHealth (probe_reply 502 ''<!DOCTYPE html><html><body>502</body></html>'')
                  new_health_service)) = down \<and>
   status (fst (checkHealth (probe_reply 200 ''oops'') new_health_service)) = degraded \<and>
   status (fst (checkHealth (probe_reply 503 ''{"error":"busy"}'') new_health_service))
     = degraded \<and>
   status (fst (checkHealth (probe_reply 200 ''{"status":"ok"}'') new_health_service))
     = healthy\<close>
proof -
  note rule = checkHealth_status_rule [where svc = new_health_service]
  have "fetched probe_timeout = Rejected (JSError ''The operation timed out.'')"
    by (simp add: probe_timeout_def)
  with rule [where env = probe_timeout]
  have 1: "status (fst (checkHealth probe_timeout new_health_service)) = down"
    by blast
  have "fetched probe_cut = Resolved \<lparr>status_code = 200, statusText = ''OK'', body = Inl NotAnError\<rparr>"
    by (simp add: probe_cut_def)
  with rule [where env = probe_cut
               and r = "\<lparr>status_code = 200, statusText = ''OK'', body = Inl NotAnError\<rparr>"
               and e = NotAnError]
  have 2: "status (fst (checkHealth probe_cut new_health_service)) = down"
    by simp
  have f: "fetched (probe_reply c t) = Resolved \<lparr>status_code = c, statusText = ''-'', body = Inr t\<rparr>"
    for c t by (simp add: probe_reply_def)
  have \<open>health_html ''<!DOCTYPE html><html><body>502</body></html>''\<close>
    by code_simp
  with f rule [where env = \<open>probe_reply 502 ''<!DOCTYPE html><html><body>502</body></html>''\<close>
                 and tx = \<open>''<!DOCTYPE html><html><body>502</body></html>''\<close>
                 and r = \<open>\<lparr>status_code = 502, statusText = ''-'',
                            body = Inr ''<!DOCTYPE html><html><body>502</body></html>''\<rparr>\<close>]
  have 3: \<open>status (fst (checkHealth (probe_reply 502 ''<!DOCTYPE html><html><body>502</body></html>'')
                  new_health_service)) = down\<close>
    by simp
  have \<open>\<not> health_html ''oops''\<close> \<open>JSON_parse ''oops'' = None\<close>
    by code_simp+
  with f rule [where env = \<open>probe_reply 200 ''oops''\<close> and tx = \<open>''oops''\<close>
                 and r = \<open>\<lparr>status_code = 200, statusText = ''-'', body = Inr ''oops''\<rparr>\<close>]
  have 4: \<open>status (fst (checkHealth (probe_reply 200 ''oops'') new_health_service)) = degraded\<close>
    by simp
  have \<open>\<not> health_html ''{"error":"busy"}''\<close>
       \<open>JSON_parse ''{"error":"busy"}'' = Some (JObject [(''error'', JString ''busy'')])\<close>
    by code_simp+
  with f rule [where env = \<open>probe_reply 503 ''{"error":"busy"}''\<close> and tx = \<open>''{"error":"busy"}''\<close>
                 and r = \<open>\<lparr>status_code = 503, statusText = ''-'', body = Inr ''{"error":"busy"}''\<rparr>\<close>
                 and d = \<open>JObject [(''error'', JString ''busy'')]\<close>]
  have 5: \<open>status (fst (checkHealth (probe_reply 503 ''{"error":"busy"}'') new_health_service))
             = degraded\<close>
    by (simp add: ok_def)
  have \<open>\<not> health_html ''{"status":"ok"}''\<close>
       \<open>JSON_parse ''{"status":"ok"}'' = Some (JObject [(''status'', JString ''ok'')])\<close>
    by code_simp+
  with f rule [where env = \<open>probe_reply 200 ''{"status":"ok"}''\<close> and tx = \<open>''{"status":"ok"}''\<close>
                 and r = \<open>\<lparr>status_code = 200, statusText = ''-'', body = Inr ''{"status":"ok"}''\<rparr>\<close>
                 and d = \<open>JObject [(''status'', JString ''ok'')]\<close>]
  have 6: \<open>status (fst (checkHealth (probe_reply 200 ''{"status":"ok"}'') new_health_service))
             = healthy\<close>
    by (simp add: ok_def)
  from 1 2 3 4 5 6 show ?thesis by blast
qed

section \<open>C4 and C5: notifications of the health service\<close>

lemma updateHealthStatus_recorded:
  "healthStatus (fst (updateHealthStatus st svc)) = Some st"
  by (simp add: updateHealthStatus_def Let_def split: option.splits)

lemma updateHealthStatus_first: "healthStatus svc = None \<Longrightarrow> snd (updateHealthStatus st svc) = []"
  by (simp add: updateHealthStatus_def Let_def)

lemma updateHealthStatus_next:
  "healthStatus svc = Some prev \<Longrightarrow>
   snd (updateHealthStatus st svc) =
     (if status prev \<noteq> status st \<and> status st = healthy then [toast_backend_online]
      else if status prev \<noteq> status st \<and> status st = down then [toast_backend_offline]
      else [])"
  by (auto simp: updateHealthStatus_def Let_def)

text \<open>Sample states: a service whose last probe was recorded with a given status.\<close>

definition recorded :: "health \<Rightarrow> health_service" where
  "recorded h =
     \<lparr>healthStatus =
        Some \<lparr>isHealthy = (h = healthy), status = h, h_latency = 40,
              h_timestamp = ''2025-01-01T00:00:01.040Z'', h_error = None\<rparr>,
      listeners = [], delivered = []\<rparr>"

text \<open>
  C4, as stated: a notification fires only on a transition between healthy and a state
  that is not healthy, so none fires from degraded to down. The service compares the
  new status with down as well: a probe that times out after a degraded one emits
  ``Backend Offline''.
\<close>

theorem updateHealthStatus_degraded_down_counterexample:
  "map_option status (healthStatus (recorded degraded)) = Some degraded \<and>
   status (probe_status probe_timeout) = down \<and>
   snd (snd (checkHealth probe_timeout (recorded degraded))) =
     [\<lparr>title = ''Backend Offline'', description = ''Some features may not work properly'',
       variant = VDestructive\<rparr>]"
  by code_simp

text \<open>
  C4, amended: recording a status emits a notification exactly when a previous status
  existed, the new status differs from it, and the new status is healthy (``Backend
  Online'') or down (``Backend Offline''). So none fires on the first probe, none fires
  while the status stays the same, none fires on entering degraded (also from healthy),
  and the transition from degraded to down does fire ``Backend Offline''.
\<close>

theorem updateHealthStatus_toasts:
  "snd (updateHealthStatus st svc) =
     (case healthStatus svc of
        None \<Rightarrow> []
      | Some prev \<Rightarrow>
          if status prev \<noteq> status st \<and> status st = healthy then
            [\<lparr>title = ''Backend Online'', description = ''Connection restored successfully'',
              variant = VDefault\<rparr>]
          else if status prev \<noteq> status st \<and> status st = down then
            [\<lparr>title = ''Backend Offline'', description = ''Some features may not work properly'',
              variant = VDestructive\<rparr>]
          else [])"
  by (cases "healthStatus svc")
     (auto simp: updateHealthStatus_first updateHealthStatus_next
        toast_backend_online_def toast_backend_offline_def)

theorem updateHealthStatus_toasts_witness:
  "snd (updateHealthStatus (probe_status probe_timeout) new_health_service) = [] \<and>
   snd (updateHealthStatus (probe_status probe_timeout) (recorded healthy)) =
     [\<lparr>title = ''Backend Offline'', description = ''Some features may not work properly'',
       variant = VDestructive\<rparr>] \<and>
   snd (updateHealthStatus (probe_status probe_timeout) (recorded degraded)) =
     [\<lparr>title = ''Backend Offline'', description = ''Some features may not work properly'',
       variant = VDestructive\<rparr>] \<and>
   snd (updateHealthStatus (probe_status probe_timeout) (recorded down)) = [] \<and>
   snd (updateHealthStatus (probe_status (probe_reply 200 ''{}'')) (recorded down)) =
     [\<lparr>title = ''Backend Online'', description = ''Connection restored successfully'',
       variant = VDefault\<rparr>] \<and>
   snd (updateHealthStatus (probe_status (probe_reply 503 ''{}'')) (recorded healthy)) = []"
proof -
  have t: "status (probe_status probe_timeout) = down"
    and h: "status (probe_status (probe_reply 200 ''{}'')) = healthy"
    and d: "status (probe_status (probe_reply 503 ''{}'')) = degraded"
    by code_simp+
  have r: "healthStatus (recorded x) =
             Some \<lparr>isHealthy = (x = healthy), status = x, h_latency = 40,
                   h_timestamp = ''2025-01-01T00:00:01.040Z'', h_error = None\<rparr>" for x
    by (simp add: recorded_def)
  have n: "healthStatus new_health_service = None"
    by (simp add: new_health_service_def)
  show ?thesis
    using updateHealthStatus_toasts [of "probe_status probe_timeout" new_health_service]
          updateHealthStatus_toasts [of "probe_status probe_timeout" "recorded healthy"]
          updateHealthStatus_toasts [of "probe_status probe_timeout" "recorded degraded"]
          updateHealthStatus_toasts [of "probe_status probe_timeout" "recorded down"]
          updateHealthStatus_toasts [of "probe_status (probe_reply 200 ''{}'')" "recorded down"]
          updateHealthStatus_toasts [of "probe_status (probe_reply 503 ''{}'')" "recorded healthy"]
    by (simp add: t h d r n)
qed

text \<open>
  C5, as stated: the probes healthy, degraded, down, healthy emit two notifications into
  a state that is not healthy and one into healthy. The run emits one of each: nothing
  when the status turns degraded, ``Backend Offline'' when it turns down, ``Backend
  Online'' when it is healthy again.
\<close>

theorem monitor_sequence_counterexample:
  \<open>map (\<lambda>env. status (probe_status env))
     [probe_reply 200 ''{"status":"ok"}'', probe_reply 503 ''{"error":"busy"}'',
      probe_timeout, probe_reply 200 ''{"status":"ok"}'']
     = [healthy, degraded, down, healthy] \<and>
   snd (monitor
     [probe_reply 200 ''{"status":"ok"}'', probe_reply 503 ''{"error":"busy"}'',
      probe_timeout, probe_reply 200 ''{"status":"ok"}''] new_health_service)
     = [\<lparr>title = ''Backend Offline'', description = ''Some features may not work properly'',
         variant = VDestructive\<rparr>,
        \<lparr>title = ''Backend Online'', description = ''Connection restored successfully'',
         variant = VDefault\<rparr>] \<and>
   length (filter (\<lambda>t. title t = ''Backend Offline'') (snd (monitor
     [probe_reply 200 ''{"status":"ok"}'', probe_reply 503 ''{"error":"busy"}'',
      probe_timeout, probe_reply 200 ''{"status":"ok"}''] new_health_service))) = 1\<close>
  by code_simp

text \<open>
  C5, amended: starting with no previous status, four probes recorded as healthy,
  degraded, down, healthy emit exactly two notifications, in this order: one ``Backend
  Offline'' (at degraded to down) and one ``Backend Online'' (at down to healthy).
\<close>

theorem monitor_sequence_toasts:
  assumes "healthStatus svc = None"
    and "status (probe_status e1) = healthy"
    and "status (probe_status e2) = degraded"
    and "status (probe_status e3) = down"
    and "status (probe_status e4) = healthy"
  shows "snd (monitor [e1, e2, e3, e4] svc) =
           [\<lparr>title = ''Backend Offline'', description = ''Some features may not work properly'',
             variant = VDestructive\<rparr>,
            \<lparr>title = ''Backend Online'', description = ''Connection restored successfully'',
             variant = VDefault\<rparr>]"
proof -
  obtain s1 t1 where u1: "updateHealthStatus (probe_status e1) svc = (s1, t1)"
    by (cases "updateHealthStatus (probe_status e1) svc")
  obtain s2 t2 where u2: "updateHealthStatus (probe_status e2) s1 = (s2, t2)"
    by (cases "updateHealthStatus (probe_status e2) s1")
  obtain s3 t3 where u3: "updateHealthStatus (probe_status e3) s2 = (s3, t3)"
    by (cases "updateHealthStatus (probe_status e3) s2")
  obtain s4 t4 where u4: "updateHealthStatus (probe_status e4) s3 = (s4, t4)"
    by (cases "updateHealthStatus (probe_status e4) s3")
  have r1: "healthStatus s1 = Some (probe_status e1)"
    using updateHealthStatus_recorded [of "probe_status e1" svc] u1 by simp
  have r2: "healthStatus s2 = Some (probe_status e2)"
    using updateHealthStatus_recorded [of "probe_status e2" s1] u2 by simp
  have r3: "healthStatus s3 = Some (probe_status e3)"
    using updateHealthStatus_recorded [of "probe_status e3" s2] u3 by simp
  have "t1 = []"
    using updateHealthStatus_first [OF assms(1), of "probe_status e1"] u1 by simp
  moreover have "t2 = []"
    using updateHealthStatus_next [OF r1, of "probe_status e2"] u2 assms by simp
  moreover have "t3 = [toast_backend_offline]"
    using updateHealthStatus_next [OF r2, of "probe_status e3"] u3 assms by simp
  moreover have "t4 = [toast_backend_online]"
    using updateHealthStatus_next [OF r3, of "probe_status e4"] u4 assms by simp
  ultimately show ?thesis
    by (simp add: checkHealth_def u1 u2 u3 u4 toast_backend_online_def toast_backend_offline_def)
qed

theorem monitor_sequence_toasts_witness:
  \<open>healthStatus new_health_service = None \<and>
   status (probe_status (probe_reply 200 ''{"status":"ok"}'')) = healthy \<and>
   status (probe_status (probe_reply 200 ''oops'')) = degraded \<and>
   status (probe_status probe_cut) = down \<and>
   snd (monitor [probe_reply 200 ''{"status":"ok"}'', probe_reply 200 ''oops'', probe_cut,
                 probe_reply 200 ''{"status":"ok"}''] new_health_service)
     = [\<lparr>title = ''Backend Offline'', description = ''Some features may not work properly'',
         variant = VDestructive\<rparr>,
        \<lparr>title = ''Backend Online'', description = ''Connection restored successfully'',
         variant = VDefault\<rparr>]\<close>
proof -
  have a: "healthStatus new_health_service = None"
    by (simp add: new_health_service_def)
  have b: \<open>status (probe_status (probe_reply 200 ''{"status":"ok"}'')) = healthy\<close>
    and c: \<open>status (probe_status (probe_reply 200 ''oops'')) = degraded\<close>
    and d: \<open>status (probe_status probe_cut) = down\<close>
    by code_simp+
  from monitor_sequence_toasts [OF a b c d b] a b c d show ?thesis by blast
qed

section \<open>C3: a body that is neither HTML nor JSON\<close>

text \<open>
  C3, as stated: a body that is not detected as HTML and fails \<open>JSON.parse\<close> gives a
  failure that is not marked as emergency. \<open>emergencyApiRequest\<close> answers the body
  \<open>oops\<close> with \<open>isEmergencyMode: true\<close>.
\<close>

theorem emergencyApiRequest_malformed_counterexample:
  "isHTMLResponse ''oops'' = False \<and> JSON_parse ''oops'' = None \<and>
   isEmergencyMode (fst (emergencyApiRequest (reply 200 ''oops''))) = Some True"
  by code_simp

text \<open>
  C3, amended: for a response whose body is not empty, is not detected as HTML and fails
  \<open>JSON.parse\<close>, \<open>apiRequest\<close> returns the failure ``Invalid JSON response from server''
  with the HTTP status, emits no notification and makes no second request (the result
  is the same whatever a second fetch would answer), and \<open>postsService.create\<close> hands
  that failure to its caller with the storage untouched; \<open>emergencyApiRequest\<close> returns
  the failure ``Invalid response format from server'' and emits no notification, but
  marks it \<open>isEmergencyMode: true\<close>.
\<close>

theorem malformed_response:
  assumes "body r = Inr tx" and "tx \<noteq> []" and "\<not> isHTMLResponse tx" and "JSON_parse tx = None"
  shows "apiRequest (Resolved r) second =
           (\<lparr>a_success = False, a_data = None,
             a_error = Some (JString ''Invalid JSON response from server''),
             a_status = status_code r, a_message = None\<rparr>, []) \<and>
         postsService_create postData (Resolved r) second now stamp st =
           (FromApi \<lparr>a_success = False, a_data = None,
                     a_error = Some (JString ''Invalid JSON response from server''),
                     a_status = status_code r, a_message = None\<rparr>, st, []) \<and>
         emergencyApiRequest (Resolved r) =
           (\<lparr>f_success = False, f_data = None,
             f_error = Some (JString ''Invalid response format from server''),
             isEmergencyMode = Some True\<rparr>, [])"
proof -
  have p: "parse_body tx = None"
    using assms by (simp add: parse_body_def)
  have a: "apiRequest (Resolved r) second =
           (\<lparr>a_success = False, a_data = None,
             a_error = Some (JString ''Invalid JSON response from server''),
             a_status = status_code r, a_message = None\<rparr>, [])"
    using assms p by (simp add: apiRequest_def api_error_result_def)
  have i: "error_includes (Some (JString ''Invalid JSON response from server''))
             ''HTML instead of JSON'' = Some False"
    by code_simp
  have c: "postsService_create postData (Resolved r) second now stamp st =
           (FromApi \<lparr>a_success = False, a_data = None,
                     a_error = Some (JString ''Invalid JSON response from server''),
                     a_status = status_code r, a_message = None\<rparr>, st, [])"
    by (simp add: postsService_create_def a i)
  have e: "emergencyApiRequest (Resolved r) =
           (\<lparr>f_success = False, f_data = None,
             f_error = Some (JString ''Invalid response format from server''),
             isEmergencyMode = Some True\<rparr>, [])"
    using assms p by (simp add: emergencyApiRequest_def)
  from a c e show ?thesis by blast
qed

theorem malformed_response_witness:
  \<open>apiRequest (reply 200 ''oops'') (reply 502 ''<html>'') =
     (\<lparr>a_success = False, a_data = None,
       a_error = Some (JString ''Invalid JSON response from server''),
       a_status = 200, a_message = None\<rparr>, []) \<and>
   postsService_create (JObject [(''content'', JString ''hello'')])
       (reply 200 ''oops'') (reply 502 ''<html>'') 1700000000000 ''2023-11-14T22:13:20.000Z''
       empty_storage =
     (FromApi \<lparr>a_success = False, a_data = None,
               a_error = Some (JString ''Invalid JSON response from server''),
               a_status = 200, a_message = None\<rparr>, empty_storage, []) \<and>
   emergencyApiRequest (reply 200 ''oops'') =
     (\<lparr>f_success = False, f_data = None,
       f_error = Some (JString ''Invalid response format from server''),
       isEmergencyMode = Some True\<rparr>, [])\<close>
proof -
  have h: "\<not> isHTMLResponse ''oops''" "JSON_parse ''oops'' = None"
    by code_simp+
  have b: "body \<lparr>status_code = 200, statusText = ''-'', body = Inr ''oops''\<rparr> = Inr ''oops''"
    by simp
  have n: "''oops'' \<noteq> []"
    by simp
  from malformed_response [OF b n h, of \<open>reply 502 ''<html>''\<close>
         \<open>JObject [(''content'', JString ''hello'')]\<close> 1700000000000
         \<open>''2023-11-14T22:13:20.000Z''\<close> empty_storage]
  show ?thesis by (simp add: reply_def)
qed

section \<open>C6 and C7: finding a healthy backend\<close>

lemma attempts_from_append:
  "attempts_from net k (us @ vs) = attempts_from net k us @ attempts_from net (k + length us) vs"
  by (induction us arbitrary: k) simp_all

lemma probe_candidates_all_fail:
  "list_all (\<lambda>a. \<not> success a) (attempts_from net (length (requests pg)) us) \<Longrightarrow>
   probe_candidates net us m pg =
     (None, m\<lparr>attempts := attempts m @ attempts_from net (length (requests pg)) us\<rparr>,
      pg\<lparr>requests := requests pg @ map health_url us\<rparr>)"
proof (induction us arbitrary: m pg)
  case Nil
  then show ?case by simp
next
  case (Cons u us)
  from Cons.prems have f: "\<not> success (attempt_of (net (length (requests pg)) (health_url u)) u)"
    and r: "list_all (\<lambda>a. \<not> success a)
              (attempts_from net (length (requests (pg\<lparr>requests := requests pg @ [health_url u]\<rparr>))) us)"
    by simp_all
  from Cons.IH [OF r] f show ?case
    by (simp add: testBackendConnection_def)
qed

lemma probe_candidates_first_success:
  "list_all (\<lambda>a. \<not> success a) (attempts_from net (length (requests pg)) pre) \<Longrightarrow>
   success (attempt_of (net (length (requests pg) + length pre) (health_url u)) u) \<Longrightarrow>
   probe_candidates net (pre @ u # post) m pg =
     (Some u,
      m\<lparr>attempts := attempts m @ attempts_from net (length (requests pg)) (pre @ [u]),
        currentBackendUrl := u\<rparr>,
      pg\<lparr>requests := requests pg @ map health_url (pre @ [u]),
         config := (config pg)\<lparr>BASE_URL := u, BACKEND_URL := u, API_URL := u\<rparr>\<rparr>)"
proof (induction pre arbitrary: m pg)
  case Nil
  then show ?case by (simp add: testBackendConnection_def)
next
  case (Cons v pre)
  from Cons.prems have f: "\<not> success (attempt_of (net (length (requests pg)) (health_url v)) v)"
    and r: "list_all (\<lambda>a. \<not> success a)
              (attempts_from net (length (requests (pg\<lparr>requests := requests pg @ [health_url v]\<rparr>))) pre)"
    and s: "success (attempt_of (net (length (requests (pg\<lparr>requests := requests pg @ [health_url v]\<rparr>))
               + length pre) (health_url u)) u)"
    by simp_all
  from Cons.IH [OF r s] f show ?case
    by (simp add: testBackendConnection_def)
qed

lemma sample_health_urls:
  "health_url ''https://a.example'' = ''https://a.example/api/health''"
  "health_url ''https://b.example'' = ''https://b.example/api/health''"
  "health_url ''https://c.example/'' = ''https://c.example/api/health''"
  by (simp_all add: health_url_def endsWith_def)

lemma sample_attempts:
  \<open>\<not> success (attempt_of probe_timeout u)\<close>
  \<open>success (attempt_of (probe_reply 200 ''{"status":"ok"}'') u)\<close>
proof -
  show \<open>\<not> success (attempt_of probe_timeout u)\<close>
    by (simp add: attempt_of_def probe_timeout_def attempt_failed_def)
  have \<open>\<not> (str_includes ''{"status":"ok"}'' ''<!DOCTYPE'' \<or> str_includes ''{"status":"ok"}'' ''<html>'')\<close>
    \<open>JSON_parse ''{"status":"ok"}'' = Some (JObject [(''status'', JString ''ok'')])\<close>
    by code_simp+
  then show \<open>success (attempt_of (probe_reply 200 ''{"status":"ok"}'') u)\<close>
    by (simp add: attempt_of_def probe_reply_def ok_def)
qed

text \<open>
  C6: let the candidates (the pinned URL, then the fallback URLs in their order) be
  \<open>pre\<close>, then \<open>u\<close>, then \<open>post\<close>, where every probe of \<open>pre\<close> fails and the probe of
  \<open>u\<close> succeeds. Then \<open>findHealthyBackend\<close> returns \<open>u\<close>, pins it as the current URL,
  sets the three base URLs of the shared configuration to it, has recorded one attempt
  for each URL of \<open>pre\<close> and for \<open>u\<close>, has sent exactly the requests to their health
  addresses, in order, so none to any URL of \<open>post\<close>, and emits no notification.
\<close>

theorem findHealthyBackend_first_healthy:
  assumes "currentBackendUrl m # fallbackUrls m = pre @ u # post"
    and "list_all (\<lambda>a. \<not> success a) (attempts_from net (length (requests pg)) pre)"
    and "success (attempt_of (net (length (requests pg) + length pre) (health_url u)) u)"
  shows "findHealthyBackend net m pg =
     (u,
      m\<lparr>attempts := attempts m @ attempts_from net (length (requests pg)) (pre @ [u]),
        currentBackendUrl := u\<rparr>,
      pg\<lparr>requests := requests pg @ map health_url (pre @ [u]),
         config := (config pg)\<lparr>BASE_URL := u, BACKEND_URL := u, API_URL := u\<rparr>\<rparr>,
      [])"
  using probe_candidates_first_success [OF assms(2,3), of post m] assms(1)
  by (simp add: findHealthyBackend_def)


theorem findHealthyBackend_first_healthy_witness:
  "fst (findHealthyBackend only_b_answers sample_manager sample_page) = ''https://b.example'' \<and>
   currentBackendUrl (fst (snd (findHealthyBackend only_b_answers sample_manager sample_page)))
     = ''https://b.example'' \<and>
   BASE_URL (config (fst (snd (snd (findHealthyBackend only_b_answers sample_manager sample_page)))))
     = ''https://b.example'' \<and>
   requests (fst (snd (snd (findHealthyBackend only_b_answers sample_manager sample_page))))
     = [''https://a.example/api/health'', ''https://b.example/api/health''] \<and>
   snd (snd (snd (findHealthyBackend only_b_answers sample_manager sample_page))) = []"
proof -
  have c: "currentBackendUrl sample_manager # fallbackUrls sample_manager =
             [''https://a.example''] @ ''https://b.example'' # [''https://c.example/'']"
    by (simp add: sample_manager_def)
  have f: "list_all (\<lambda>a. \<not> success a)
             (attempts_from only_b_answers (length (requests sample_page)) [''https://a.example''])"
    by (simp add: sample_health_urls only_b_answers_def sample_attempts)
  have s: "success (attempt_of (only_b_answers (length (requests sample_page) + length [''https://a.example''])
             (health_url ''https://b.example'')) ''https://b.example'')"
    by (simp add: sample_health_urls only_b_answers_def sample_attempts)
  show ?thesis
    unfolding findHealthyBackend_first_healthy [OF c f s]
    by (simp add: sample_health_urls sample_page_def)
qed

text \<open>
  C7: when the probe of every candidate fails, \<open>findHealthyBackend\<close> emits exactly one
  notification, with the title ``All Backends Offline'' and the description ``Unable to
  connect to any backend server. Please check your connection.''; the notification for
  a single backend that went down is the health service's ``Backend Offline'', ``Some
  features may not work properly'', and the two differ in title and in description.
  The call returns the pinned URL, which is unchanged, as is the shared configuration;
  it has recorded one attempt for each candidate.
\<close>

theorem findHealthyBackend_all_offline:
  assumes "list_all (\<lambda>a. \<not> success a)
             (attempts_from net (length (requests pg)) (currentBackendUrl m # fallbackUrls m))"
  shows "findHealthyBackend net m pg =
     (currentBackendUrl m,
      m\<lparr>attempts := attempts m @
           attempts_from net (length (requests pg)) (currentBackendUrl m # fallbackUrls m)\<rparr>,
      pg\<lparr>requests := requests pg @ map health_url (currentBackendUrl m # fallbackUrls m)\<rparr>,
      [\<lparr>title = ''All Backends Offline'',
        description = ''Unable to connect to any backend server. Please check your connection.'',
        variant = VDestructive\<rparr>]) \<and>
    toast_backend_offline =
      \<lparr>title = ''Backend Offline'', description = ''Some features may not work properly'',
       variant = VDestructive\<rparr> \<and>
    title toast_all_offline \<noteq> title toast_backend_offline \<and>
    description toast_all_offline \<noteq> description toast_backend_offline"
  using probe_candidates_all_fail [OF assms, of m]
  by (simp add: findHealthyBackend_def toast_all_offline_def toast_backend_offline_def)


theorem findHealthyBackend_all_offline_witness:
  "fst (findHealthyBackend nobody_answers sample_manager sample_page) = ''https://a.example'' \<and>
   currentBackendUrl (fst (snd (findHealthyBackend nobody_answers sample_manager sample_page)))
     = ''https://a.example'' \<and>
   BASE_URL (config (fst (snd (snd (findHealthyBackend nobody_answers sample_manager sample_page)))))
     = ''https://a.example'' \<and>
   requests (fst (snd (snd (findHealthyBackend nobody_answers sample_manager sample_page))))
     = [''https://a.example/api/health'', ''https://b.example/api/health'',
        ''https://c.example/api/health''] \<and>
   snd (snd (snd (findHealthyBackend nobody_answers sample_manager sample_page)))
     = [\<lparr>title = ''All Backends Offline'',
         description = ''Unable to connect to any backend server. Please check your connection.'',
         variant = VDestructive\<rparr>]"
proof -
  have f: "list_all (\<lambda>a. \<not> success a)
             (attempts_from nobody_answers (length (requests sample_page))
                (currentBackendUrl sample_manager # fallbackUrls sample_manager))"
    by (simp add: sample_manager_def nobody_answers_def sample_attempts)
  from findHealthyBackend_all_offline [OF f]
  have "findHealthyBackend nobody_answers sample_manager sample_page =
     (currentBackendUrl sample_manager,
      sample_manager\<lparr>attempts := attempts sample_manager @
           attempts_from nobody_answers (length (requests sample_page))
             (currentBackendUrl sample_manager # fallbackUrls sample_manager)\<rparr>,
      sample_page\<lparr>requests := requests sample_page @
           map health_url (currentBackendUrl sample_manager # fallbackUrls sample_manager)\<rparr>,
      [\<lparr>title = ''All Backends Offline'',
        description = ''Unable to connect to any backend server. Please check your connection.'',
        variant = VDestructive\<rparr>])"
    by blast
  then show ?thesis
    by (simp add: sample_health_urls sample_page_def sample_manager_def)
qed


section \<open>C9: two posts saved offline\<close>

text \<open>The decimal rendering of the clock reading is injective.\<close>

lemma digit_char_inj: "a < 10 \<Longrightarrow> b < 10 \<Longrightarrow> digit_char a = digit_char b \<Longrightarrow> a = b"
  by (simp add: digit_char_def char_of_eq_iff take_bit_nat_eq_self)

lemma digit_char_not_minus: "d < 10 \<Longrightarrow> digit_char d \<noteq> CHR ''-''"
proof
  assume "d < 10" and "digit_char d = CHR ''-''"
  then have "of_char (digit_char d) = (of_char (CHR ''-'') :: nat)" by simp
  with \<open>d < 10\<close> show False
    by (simp add: digit_char_def take_bit_nat_eq_self)
qed

lemma show_nat_small: "n < 10 \<Longrightarrow> show_nat n = [digit_char n]"
  by (simp add: show_nat.simps)

lemma show_nat_big: "10 \<le> n \<Longrightarrow> show_nat n = show_nat (n div 10) @ [digit_char (n mod 10)]"
  by (subst show_nat.simps) simp

lemma show_nat_not_Nil: "show_nat n \<noteq> []"
  by (cases "n < 10") (simp_all add: show_nat_small show_nat_big)

lemma show_nat_inj: "show_nat n = show_nat m \<Longrightarrow> n = m"
proof (induction n arbitrary: m rule: show_nat.induct)
  case (1 n)
  show ?case
  proof (cases "n < 10")
    case True
    show ?thesis
    proof (cases "m < 10")
      case m: True
      with True "1.prems" show ?thesis
        by (simp add: show_nat_small digit_char_inj)
    next
      case False
      with True "1.prems" show_nat_not_Nil [of "m div 10"] show ?thesis
        by (simp add: show_nat_small show_nat_big)
    qed
  next
    case False
    show ?thesis
    proof (cases "m < 10")
      case True
      with False "1.prems" show_nat_not_Nil [of "n div 10"] show ?thesis
        by (simp add: show_nat_small show_nat_big)
    next
      case m: False
      with False "1.prems" have
        e1: "show_nat (n div 10) = show_nat (m div 10)"
        and e2: "digit_char (n mod 10) = digit_char (m mod 10)"
        by (simp_all add: show_nat_big)
      from "1.IH" [OF False e1] have "n div 10 = m div 10" .
      moreover from digit_char_inj [OF _ _ e2] have "n mod 10 = m mod 10" by simp
      ultimately show ?thesis
        by (metis div_mult_mod_eq)
    qed
  qed
qed

lemma show_nat_head: "\<exists>d r. d < 10 \<and> show_nat n = digit_char d # r"
proof (induction n rule: show_nat.induct)
  case (1 n)
  show ?case
  proof (cases "n < 10")
    case True
    then show ?thesis by (auto simp: show_nat_small)
  next
    case False
    with "1.IH" obtain d r where "d < 10" "show_nat (n div 10) = digit_char d # r" by auto
    with False show ?thesis by (auto simp: show_nat_big)
  qed
qed

lemma show_int_inj: "show_int i = show_int j \<Longrightarrow> i = j"
proof -
  assume a: "show_int i = show_int j"
  have neg: "x < 0 \<Longrightarrow> 0 \<le> y \<Longrightarrow> show_int x \<noteq> show_int y" for x y
    using show_nat_head [of "nat y"] by (auto simp: show_int_def dest: digit_char_not_minus)
  show ?thesis
  proof (cases "i < 0")
    case True
    show ?thesis
    proof (cases "j < 0")
      case j: True
      with True a have "nat (- i) = nat (- j)"
        by (auto simp: show_int_def dest: show_nat_inj)
      with True j show ?thesis by simp
    next
      case False
      with True a neg [of i j] show ?thesis by simp
    qed
  next
    case False
    show ?thesis
    proof (cases "j < 0")
      case True
      with False a neg [of j i] show ?thesis by simp
    next
      case j: False
      with False a have "nat i = nat j"
        by (auto simp: show_int_def dest: show_nat_inj)
      with False j show ?thesis by simp
    qed
  qed
qed

lemma map_of_obj_set: "map_of (obj_set ps k v) = (map_of ps)(k \<mapsto> v)"
  by (induction ps) auto

lemma foldl_obj_set_other:
  "k \<notin> fst ` set kvs \<Longrightarrow> map_of (foldl (\<lambda>ps (k, v). obj_set ps k v) init kvs) k = map_of init k"
  by (induction kvs arbitrary: init) (auto simp: map_of_obj_set)

lemma newPost_id:
  assumes "map_of (spread_props postData) ''id'' = None"
  shows "get_prop (newPost postData now stamp) ''id'' = Some (JString (''emergency_'' @ show_int now))"
proof -
  from assms have "''id'' \<notin> fst ` set (spread_props postData)"
    by (simp add: map_of_eq_None_iff)
  then have "''id'' \<notin> fst ` set (spread_props postData @
           [(''createdAt'', JString stamp),
            (''isEmergencyMode'', JBool True),
            (''status'', JString ''pending_sync'')])"
    by simp
  from foldl_obj_set_other [OF this] show ?thesis
    by (simp add: newPost_def)
qed

lemma stringify_array_not_Nil: "JSON_stringify (JArray xs) \<noteq> []"
  by simp

lemma stored_after_setItem:
  "setItem st ''emergency_posts'' v = Some st' \<Longrightarrow> v \<noteq> [] \<Longrightarrow> stored_posts_text st' = v"
  by (auto simp: setItem_def stored_posts_text_def getItem_def split: if_splits)

lemma setItem_quota: "setItem st k v = Some st' \<Longrightarrow> quota st' = quota st"
  by (auto simp: setItem_def split: if_splits)

lemma emergencyCreatePost_ok:
  assumes "JSON_parse (stored_posts_text st) = Some (JArray old)"
    and "length (JSON_stringify (JArray (newPost pd now stamp # old))) \<le> quota st"
  shows "\<exists>st'. emergencyCreatePost pd now stamp st =
           (\<lparr>f_success = True, f_data = Some (newPost pd now stamp), f_error = None,
             isEmergencyMode = Some True\<rparr>, st', [toast_saved_offline]) \<and>
         stored_posts_text st' = JSON_stringify (JArray (newPost pd now stamp # old)) \<and>
         quota st' = quota st"
proof -
  from assms(2) obtain st' where
    s: "setItem st ''emergency_posts'' (JSON_stringify (JArray (newPost pd now stamp # old))) = Some st'"
    by (simp add: setItem_def)
  from stored_after_setItem [OF s stringify_array_not_Nil] setItem_quota [OF s] assms(1) s
  show ?thesis
    by (simp add: emergencyCreatePost_def)
qed


lemma digit_chars:
  "digit_char 0 = CHR ''0''" "digit_char (Suc 0) = CHR ''1''" "digit_char 2 = CHR ''2''"
  "digit_char 3 = CHR ''3''" "digit_char 4 = CHR ''4''" "digit_char 5 = CHR ''5''"
  "digit_char 6 = CHR ''6''" "digit_char 7 = CHR ''7''" "digit_char 8 = CHR ''8''"
  "digit_char 9 = CHR ''9''"
proof -
  have "char_of (49::nat) = CHR ''1''" by code_simp
  then show "digit_char (Suc 0) = CHR ''1''" by (simp add: digit_char_def)
qed code_simp+

lemma newPost_samples:
  "newPost post_a 1700000000000 sample_stamp = saved_a ''emergency_1700000000000''"
  "newPost post_b 1700000000000 sample_stamp = saved_b ''emergency_1700000000000''"
  "newPost post_b 1700000000001 sample_stamp = saved_b ''emergency_1700000000001''"
  by (simp_all add: newPost_def post_a_def post_b_def saved_def saved_a_def saved_b_def
        sample_stamp_def show_int_def show_nat.simps digit_chars)

lemma empty_storage_posts: "JSON_parse (stored_posts_text empty_storage) = Some (JArray [])"
proof -
  have "JSON_parse ''[]'' = Some (JArray [])"
    by code_simp
  then show ?thesis
    by (simp add: stored_posts_text_def getItem_def empty_storage_def)
qed

lemma sample_lengths:
  "length (JSON_stringify (JArray [saved_a ''emergency_1700000000000''])) \<le> quota empty_storage"
  "length (JSON_stringify (JArray [saved_b ''emergency_1700000000000'',
                                   saved_a ''emergency_1700000000000''])) \<le> quota empty_storage"
  "length (JSON_stringify (JArray [saved_b ''emergency_1700000000001'',
                                   saved_a ''emergency_1700000000000''])) \<le> quota empty_storage"
proof -
  have q: "n < 1000 \<Longrightarrow> n \<le> quota empty_storage" for n
    by (simp add: empty_storage_def)
  have "length (JSON_stringify (JArray [saved_a ''emergency_1700000000000''])) < 1000"
    by code_simp
  then show "length (JSON_stringify (JArray [saved_a ''emergency_1700000000000''])) \<le> quota empty_storage"
    by (rule q)
  have "length (JSON_stringify (JArray [saved_b ''emergency_1700000000000'',
                                     saved_a ''emergency_1700000000000''])) < 1000"
    by code_simp
  then show "length (JSON_stringify (JArray [saved_b ''emergency_1700000000000'',
                                   saved_a ''emergency_1700000000000''])) \<le> quota empty_storage"
    by (rule q)
  have "length (JSON_stringify (JArray [saved_b ''emergency_1700000000001'',
                                     saved_a ''emergency_1700000000000''])) < 1000"
    by code_simp
  then show "length (JSON_stringify (JArray [saved_b ''emergency_1700000000001'',
                                   saved_a ''emergency_1700000000000''])) \<le> quota empty_storage"
    by (rule q)
qed

lemma sample_read_back:
  "JSON_parse (JSON_stringify (JArray [saved_a ''emergency_1700000000000''])) =
     Some (JArray [saved_a ''emergency_1700000000000''])"
  "JSON_parse (JSON_stringify (JArray [saved_b ''emergency_1700000000001'',
                                       saved_a ''emergency_1700000000000''])) =
     Some (JArray [saved_b ''emergency_1700000000001'', saved_a ''emergency_1700000000000''])"
  by code_simp+

text \<open>
  C9, as stated: two posts created one after the other have distinct ids. The id is
  \<open>emergency_\<close> followed by the reading of \<open>Date.now()\<close>, in milliseconds: two posts
  saved within the same millisecond are both stored, with the same id.
\<close>

theorem emergencyCreatePost_same_millisecond_counterexample:
  "fst (emergencyCreatePost post_a 1700000000000 sample_stamp empty_storage) =
     \<lparr>f_success = True, f_data = Some (saved_a ''emergency_1700000000000''),
      f_error = None, isEmergencyMode = Some True\<rparr> \<and>
   fst (emergencyCreatePost post_b 1700000000000 sample_stamp
          (fst (snd (emergencyCreatePost post_a 1700000000000 sample_stamp empty_storage)))) =
     \<lparr>f_success = True, f_data = Some (saved_b ''emergency_1700000000000''),
      f_error = None, isEmergencyMode = Some True\<rparr> \<and>
   get_prop (saved_a ''emergency_1700000000000'') ''id'' =
     get_prop (saved_b ''emergency_1700000000000'') ''id''"
proof -
  from emergencyCreatePost_ok [OF empty_storage_posts, of post_a 1700000000000 sample_stamp,
         unfolded newPost_samples, OF sample_lengths(1)]
  obtain st1 where
    e1: "emergencyCreatePost post_a 1700000000000 sample_stamp empty_storage =
           (\<lparr>f_success = True, f_data = Some (saved_a ''emergency_1700000000000''),
             f_error = None, isEmergencyMode = Some True\<rparr>, st1, [toast_saved_offline])"
    and s1: "stored_posts_text st1 = JSON_stringify (JArray [saved_a ''emergency_1700000000000''])"
    and q1: "quota st1 = quota empty_storage"
    by blast
  have r1: "JSON_parse (stored_posts_text st1) = Some (JArray [saved_a ''emergency_1700000000000''])"
    unfolding s1 by (rule sample_read_back(1))
  from emergencyCreatePost_ok [OF r1, of post_b 1700000000000 sample_stamp,
         unfolded newPost_samples q1, OF sample_lengths(2)]
  obtain st2 where
    e2: "emergencyCreatePost post_b 1700000000000 sample_stamp st1 =
           (\<lparr>f_success = True, f_data = Some (saved_b ''emergency_1700000000000''),
             f_error = None, isEmergencyMode = Some True\<rparr>, st2, [toast_saved_offline])"
    by blast
  have i: "get_prop (saved_a ''emergency_1700000000000'') ''id'' =
          get_prop (saved_b ''emergency_1700000000000'') ''id''"
    by (simp add: saved_a_def saved_b_def saved_def)
  show ?thesis
    unfolding e1 fst_conv snd_conv e2 using i by blast
qed

text \<open>
  C9, amended: let the stored list be an array \<open>old\<close> (an absent entry counts as the
  empty array), let neither \<open>postData\<close> carry an \<open>id\<close> of its own, let the two readings
  of the clock differ, and let the storage accept the two new lists and hand them back
  as written (each list is read back by \<open>JSON.parse\<close> from the text \<open>JSON.stringify\<close>
  wrote). Then both calls succeed, each returns its new post, the two posts have
  distinct ids, and \<open>getEmergencyPosts\<close> returns the second post, the first post and
  then the older ones.
\<close>

theorem two_offline_posts:
  assumes "JSON_parse (stored_posts_text st0) = Some (JArray old)"
    and "now1 \<noteq> now2"
    and "map_of (spread_props pd1) ''id'' = None"
    and "map_of (spread_props pd2) ''id'' = None"
    and "p1 = newPost pd1 now1 stamp1"
    and "p2 = newPost pd2 now2 stamp2"
    and "JSON_parse (JSON_stringify (JArray (p1 # old))) = Some (JArray (p1 # old))"
    and "JSON_parse (JSON_stringify (JArray (p2 # p1 # old))) = Some (JArray (p2 # p1 # old))"
    and "length (JSON_stringify (JArray (p1 # old))) \<le> quota st0"
    and "length (JSON_stringify (JArray (p2 # p1 # old))) \<le> quota st0"
    and "emergencyCreatePost pd1 now1 stamp1 st0 = (r1, st1, ts1)"
    and "emergencyCreatePost pd2 now2 stamp2 st1 = (r2, st2, ts2)"
  shows "f_success r1 \<and> f_data r1 = Some p1 \<and> f_success r2 \<and> f_data r2 = Some p2 \<and>
         get_prop p1 ''id'' \<noteq> get_prop p2 ''id'' \<and>
         getEmergencyPosts st2 = JArray (p2 # p1 # old)"
proof -
  from emergencyCreatePost_ok [OF assms(1), of pd1 now1 stamp1] assms(5,9,11)
  have 1: "f_success r1" "f_data r1 = Some p1"
    and s1: "stored_posts_text st1 = JSON_stringify (JArray (p1 # old))"
    and q1: "quota st1 = quota st0"
    by auto
  from s1 assms(7) have "JSON_parse (stored_posts_text st1) = Some (JArray (p1 # old))"
    by simp
  from emergencyCreatePost_ok [OF this, of pd2 now2 stamp2] assms(6,10,12) q1
  have 2: "f_success r2" "f_data r2 = Some p2"
    and s2: "stored_posts_text st2 = JSON_stringify (JArray (p2 # p1 # old))"
    by auto
  from s2 assms(8) have 3: "getEmergencyPosts st2 = JArray (p2 # p1 # old)"
    by (simp add: getEmergencyPosts_def)
  from assms(2) have "show_int now1 \<noteq> show_int now2"
    by (auto dest: show_int_inj)
  with newPost_id [OF assms(3), of now1 stamp1] newPost_id [OF assms(4), of now2 stamp2] assms(5,6)
  have 4: "get_prop p1 ''id'' \<noteq> get_prop p2 ''id''"
    by simp
  from 1 2 3 4 show ?thesis by blast
qed

theorem two_offline_posts_witness:
  "f_success (fst (emergencyCreatePost post_a 1700000000000 sample_stamp empty_storage)) \<and>
   f_success (fst (emergencyCreatePost post_b 1700000000001 sample_stamp
     (fst (snd (emergencyCreatePost post_a 1700000000000 sample_stamp empty_storage))))) \<and>
   get_prop (saved_a ''emergency_1700000000000'') ''id'' \<noteq>
     get_prop (saved_b ''emergency_1700000000001'') ''id'' \<and>
   getEmergencyPosts (fst (snd (emergencyCreatePost post_b 1700000000001 sample_stamp
     (fst (snd (emergencyCreatePost post_a 1700000000000 sample_stamp empty_storage)))))) =
     JArray [saved_b ''emergency_1700000000001'', saved_a ''emergency_1700000000000'']"
proof -
  obtain r1 st1 ts1 where
    e1: "emergencyCreatePost post_a 1700000000000 sample_stamp empty_storage = (r1, st1, ts1)"
    by (cases "emergencyCreatePost post_a 1700000000000 sample_stamp empty_storage")
  obtain r2 st2 ts2 where
    e2: "emergencyCreatePost post_b 1700000000001 sample_stamp st1 = (r2, st2, ts2)"
    by (cases "emergencyCreatePost post_b 1700000000001 sample_stamp st1")
  have d: "(1700000000000::int) \<noteq> 1700000000001"
    by simp
  have ia: "map_of (spread_props post_a) ''id'' = None"
    and ib: "map_of (spread_props post_b) ''id'' = None"
    by (simp_all add: post_a_def post_b_def)
  from two_offline_posts [OF empty_storage_posts d ia ib
         newPost_samples(1) [symmetric] newPost_samples(3) [symmetric]
         sample_read_back(1) sample_read_back(2) sample_lengths(1) sample_lengths(3) e1 e2]
  show ?thesis
    unfolding e1 fst_conv snd_conv e2 by blast
qed

section \<open>C8: connection statistics\<close>

lemma foldl_latency:
  "foldl (\<lambda>sum a. sum + latency_or_zero a) z xs = z + sum_list (map latency_or_zero xs)"
  by (induction xs arbitrary: z) simp_all

lemma sum_truthy_latency:
  "sum_list (map latency_or_zero
     (filter (\<lambda>a. success a \<and> latency a \<noteq> None \<and> latency a \<noteq> Some 0) xs)) =
   sum_list (map latency_or_zero (filter success xs))"
  by (induction xs) (auto simp: latency_or_zero_def)

lemma successRate_eq:
  "successRate (getConnectionStats m) =
     (if attempts m = [] then NaN
      else Num (of_nat (length (filter success (attempts m))) / of_nat (length (attempts m))))"
  by (simp add: getConnectionStats_def Let_def js_div_def)

lemma js_or_zero_Num: "js_or_zero (Num q) = Num q"
  by (simp add: js_or_zero_def)

lemma averageLatency_eq:
  "averageLatency (getConnectionStats m) =
     (if filter success (attempts m) = [] then Num 0
      else Num (of_int \<lfloor>rat_of_int (sum_list (map latency_or_zero (filter success (attempts m))))
                         / rat_of_nat (length (filter success (attempts m))) + 1 / 2\<rfloor>))"
proof -
  have avg: "averageLatency (getConnectionStats m) =
     Math_round (js_or_zero (js_div
       (rat_of_int (sum_list (map latency_or_zero (filter success (attempts m)))))
       (rat_of_nat (length (filter success (attempts m))))))"
    unfolding getConnectionStats_def Let_def foldl_latency sum_truthy_latency by simp
  show ?thesis
  proof (cases "filter success (attempts m) = []")
    case True
    have "\<lfloor>(1::rat) / 2\<rfloor> = 0"
      by (rule floor_unique) simp_all
    with True show ?thesis
      unfolding avg by (simp add: js_div_def js_or_zero_def Math_round_def)
  next
    case False
    then have "rat_of_nat (length (filter success (attempts m))) \<noteq> 0"
      by simp
    with False show ?thesis
      unfolding avg by (simp add: js_div_def js_or_zero_Num Math_round_def)
  qed
qed

text \<open>
  C8, as stated: \<open>averageLatency\<close> is the mean latency of the successful attempts, and
  \<open>successRate\<close> is 0 for an empty log. \<open>getConnectionStats\<close> returns
  \<open>Math.round\<close> of the mean: two successes with the latencies 10 and 11 give 11, and
  the mean is 21/2. For an empty log it returns the quotient \<open>0 / 0\<close>, which is
  \<open>NaN\<close>.
\<close>

theorem getConnectionStats_counterexample:
  "averageLatency (getConnectionStats (manager_with [attempt_ok 10, attempt_ok 11])) = Num 11 \<and>
   Num 11 \<noteq> Num (21 / 2) \<and>
   successRate (getConnectionStats (manager_with [])) = NaN \<and>
   NaN \<noteq> Num 0"
  by code_simp

text \<open>
  C8, amended: for a log that is not empty, \<open>successRate\<close> is the number of successful
  attempts divided by the number of attempts. \<open>averageLatency\<close> is 0 when no attempt
  succeeded, and otherwise the mean latency of the successful attempts (one without a
  latency counting as 0) rounded to the nearest integer, a half upwards. For three
  successes with the latencies 10, 20 and 30 and one failure the two are 0.75 and 20.
\<close>

theorem getConnectionStats_rates:
  "(attempts m \<noteq> [] \<longrightarrow>
      successRate (getConnectionStats m) =
        Num (rat_of_nat (length (filter success (attempts m)))
               / rat_of_nat (length (attempts m)))) \<and>
   averageLatency (getConnectionStats m) =
     (if filter success (attempts m) = [] then Num 0
      else Num (of_int \<lfloor>rat_of_int (sum_list (map latency_or_zero (filter success (attempts m))))
                         / rat_of_nat (length (filter success (attempts m))) + 1 / 2\<rfloor>))"
  using successRate_eq [of m] averageLatency_eq [of m] by simp

theorem getConnectionStats_rates_witness:
  "attempts (manager_with [attempt_ok 10, attempt_bad, attempt_ok 20, attempt_ok 30]) \<noteq> [] \<and>
   successRate (getConnectionStats
     (manager_with [attempt_ok 10, attempt_bad, attempt_ok 20, attempt_ok 30])) = Num (3 / 4) \<and>
   averageLatency (getConnectionStats
     (manager_with [attempt_ok 10, attempt_bad, attempt_ok 20, attempt_ok 30])) = Num 20 \<and>
   averageLatency (getConnectionStats (manager_with [attempt_bad])) = Num 0"
proof -
  have a: "attempts (manager_with [attempt_ok 10, attempt_bad, attempt_ok 20, attempt_ok 30]) \<noteq> []"
    and b: "filter success (attempts (manager_with [attempt_ok 10, attempt_bad, attempt_ok 20, attempt_ok 30]))
              \<noteq> []"
    and c: "filter success (attempts (manager_with [attempt_bad])) = []"
    by (simp_all add: manager_with_def attempt_ok_def attempt_bad_def)
  have d: "Num (rat_of_nat (length (filter success
              (attempts (manager_with [attempt_ok 10, attempt_bad, attempt_ok 20, attempt_ok 30]))))
             / rat_of_nat (length (attempts (manager_with [attempt_ok 10, attempt_bad, attempt_ok 20, attempt_ok 30]))))
           = Num (3 / 4)"
    by code_simp
  have e: "Num (of_int \<lfloor>rat_of_int (sum_list (map latency_or_zero (filter success
              (attempts (manager_with [attempt_ok 10, attempt_bad, attempt_ok 20, attempt_ok 30])))))
             / rat_of_nat (length (filter success
              (attempts (manager_with [attempt_ok 10, attempt_bad, attempt_ok 20, attempt_ok 30]))))
             + 1 / 2\<rfloor>) = Num 20"
    by code_simp
  from getConnectionStats_rates [of "manager_with [attempt_ok 10, attempt_bad, attempt_ok 20, attempt_ok 30]"]
       getConnectionStats_rates [of "manager_with [attempt_bad]"] a b c d e
  show ?thesis by presburger
qed

section \<open>C10: the history is a copy of the attempt log\<close>

lemma deref_all_objects: "objects h' = objects h \<Longrightarrow> deref_all h' es = deref_all h es"
  by (induction es) (simp_all split: option.splits)

lemma deref_all_array_write [simp]: "deref_all (array_write a xs h) es = deref_all h es"
  by (rule deref_all_objects) (simp add: array_write_def)


lemma deref_all_alloc [simp]:
  "deref_all (h\<lparr>arrays := f, next_addr := n\<rparr>) es = deref_all h es"
  by (rule deref_all_objects) simp



text \<open>
  The copy is of the array, not of its elements: an assignment to a field of an element
  reached through the returned array is an assignment to the attempt in the log. C10
  speaks of changes to the array only.
\<close>

lemma history_shares_elements:
  "array_contents (object_write 1 attempt_bad (snd (the (getConnectionHistory 0 sample_store)))) 0 =
     Some [attempt_bad, attempt_bad]"
  by (simp add: getConnectionHistory_def sample_store_def array_contents_def object_write_def)


end
